theory Spec2Isabelle
  imports Main "HOL-Library.AList"
begin

section \<open>SequenceOrchestrator: the admission pipeline and the queue drainer\<close>

text \<open>
  A shallow embedding of \<^verbatim>\<open>SequenceOrchestrator.ts\<close>. The class holds eight collaborators
  (event bus, registry, queue, executor, statistics, validator, utilities, resource
  delegator); only the orchestrator itself is in the source tree, so each collaborator is
  either a small state with the operations the orchestrator calls, or a record of functions
  standing for the collaborator's methods. Console output is not part of the state.
\<close>

subsection \<open>Values\<close>

datatype SequencePriority = HIGH | NORMAL | CHAINED

fun priorityName :: "SequencePriority \<Rightarrow> string" where
  "priorityName HIGH = ''HIGH''"
| "priorityName NORMAL = ''NORMAL''"
| "priorityName CHAINED = ''CHAINED''"

datatype ConflictType = SAME_RESOURCE | NONE

datatype Resolution = ALLOW | REJECT | QUEUE

record ResourceConflictResult =
  hasConflict :: bool
  conflictType :: ConflictType
  resolution :: Resolution
  message :: string

text \<open>A registered sequence; the orchestrator only ever tests whether one was found.\<close>

record MusicalSequence =
  seqName :: string
  movements :: "string list"

text \<open>
  JavaScript values as they occur in request data, event payloads and contexts. An object
  (\<^verbatim>\<open>Record<string, any>\<close>) is an association list in property order; reading a property is
  \<^const>\<open>map_of\<close>, and writing one in an object literal after a spread is \<^const>\<open>AList.update\<close>
  (an existing key keeps its place and takes the new value, a new key goes last).
\<close>

datatype val =
    VUndefined
  | VNull
  | VBool bool
  | VNum int
  | VStr string
  | VArr "val list"
  | VObj "(string \<times> val) list"
  | VConflict ResourceConflictResult
  | VSequence MusicalSequence

type_synonym obj = "(string \<times> val) list"

record SequenceRequest =
  sequenceName :: string
  data :: obj
  priority :: SequencePriority
  requestId :: string
  queuedAt :: int

text \<open>
  \<^verbatim>\<open>SequenceStartResult\<close> and \<^verbatim>\<open>QueueProcessingResult\<close>; optional properties are options.
  The \<^verbatim>\<open>error\<close> of a processing result is declared a string, but the \<^verbatim>\<open>catch\<close> of the drainer
  stores whatever the \<^verbatim>\<open>message\<close> property of the caught value is, so it is a value here.
  The fields \<^verbatim>\<open>requestId\<close>, \<^verbatim>\<open>sequenceName\<close>, \<^verbatim>\<open>success\<close> and \<^verbatim>\<open>error\<close> of the results are
  prefixed where the name is already a field of the request.
\<close>

record SequenceStartResult =
  startRequestId :: string
  success :: bool
  reason :: "string option"
  isDuplicate :: "bool option"

record QueueProcessingResult =
  processed :: bool
  processedSequenceName :: "string option"
  processedSuccess :: "bool option"
  processedError :: "val option"

datatype Error = Error string

subsection \<open>Collaborators\<close>

text \<open>
  Modelled from the spec: the members of \<^verbatim>\<open>MUSICAL_CONDUCTOR_EVENT_TYPES\<close> (declared in
  \<^verbatim>\<open>SequenceTypes\<close>, which is not in the source tree), one per lifecycle topic.
\<close>

datatype EventType =
    SEQUENCE_QUEUED
  | SEQUENCE_STARTED
  | SEQUENCE_COMPLETED
  | SEQUENCE_FAILED
  | SEQUENCE_CANCELLED

text \<open>
  Modelled from the spec: \<^verbatim>\<open>EventBus.emit\<close> dispatches synchronously and never throws to the
  publisher. The bus is the list of events the orchestrator has emitted on it, oldest
  first; what the executor emits while it runs a sequence is not recorded.
\<close>

type_synonym EventBus = "(EventType \<times> obj) list"

definition emit :: "EventBus \<Rightarrow> EventType \<Rightarrow> obj \<Rightarrow> EventBus" where
  "emit bus topic payload = bus @ [(topic, payload)]"

text \<open>Modelled from the spec: \<^verbatim>\<open>SequenceRegistry\<close> is a map from names to sequences.\<close>

type_synonym SequenceRegistry = "string \<rightharpoonup> MusicalSequence"

definition registryGet :: "SequenceRegistry \<Rightarrow> string \<Rightarrow> MusicalSequence option" where
  "registryGet registry n = registry n"

text \<open>
  Modelled from the spec: \<^verbatim>\<open>ExecutionQueue\<close> is a stable priority queue with three bands;
  \<^verbatim>\<open>HIGH\<close> runs first, \<^verbatim>\<open>CHAINED\<close> is placed at the head of \<^verbatim>\<open>NORMAL\<close>, and requests of one
  band keep their arrival order. The list is in dequeue order.
\<close>

type_synonym ExecutionQueue = "SequenceRequest list"

fun band :: "SequencePriority \<Rightarrow> nat" where
  "band HIGH = 0"
| "band CHAINED = 1"
| "band NORMAL = 2"

definition enqueue :: "SequenceRequest \<Rightarrow> ExecutionQueue \<Rightarrow> ExecutionQueue" where
  "enqueue r q =
     takeWhile (\<lambda>x. band (priority x) \<le> band (priority r)) q @ [r] @
     dropWhile (\<lambda>x. band (priority x) \<le> band (priority r)) q"

fun dequeue :: "ExecutionQueue \<Rightarrow> SequenceRequest option \<times> ExecutionQueue" where
  "dequeue [] = (None, [])"
| "dequeue (r # q) = (Some r, q)"

definition isEmpty :: "ExecutionQueue \<Rightarrow> bool" where
  "isEmpty q = (q = [])"

definition queueSize :: "ExecutionQueue \<Rightarrow> nat" where
  "queueSize q = length q"

text \<open>
  Modelled from the spec: \<^verbatim>\<open>SequenceExecutor\<close> owns the request it is running from the call of
  \<^verbatim>\<open>executeSequence\<close> until that call settles, and \<^verbatim>\<open>isSequenceRunning\<close> says whether it owns one.
\<close>

record SequenceExecutor =
  currentSequence :: "SequenceRequest option"

definition isSequenceRunning :: "SequenceExecutor \<Rightarrow> bool" where
  "isSequenceRunning ex = (currentSequence ex \<noteq> None)"

definition executeSequenceBegin ::
  "SequenceExecutor \<Rightarrow> SequenceRequest \<Rightarrow> MusicalSequence \<Rightarrow> SequenceExecutor" where
  "executeSequenceBegin ex request sequence = ex\<lparr>currentSequence := Some request\<rparr>"

definition executeSequenceSettle :: "SequenceExecutor \<Rightarrow> SequenceExecutor" where
  "executeSequenceSettle ex = ex\<lparr>currentSequence := None\<rparr>"

text \<open>Modelled from the spec: \<^verbatim>\<open>StatisticsManager\<close> keeps monotonic counters and the wait times.\<close>

record StatisticsManager =
  queued :: nat
  started :: nat
  completed :: nat
  errored :: nat
  cancelled :: nat
  duplicates :: nat
  queueWaitTimes :: "int list"

definition recordSequenceQueued :: "StatisticsManager \<Rightarrow> StatisticsManager" where
  "recordSequenceQueued st = st\<lparr>queued := queued st + 1\<rparr>"

definition recordError :: "StatisticsManager \<Rightarrow> StatisticsManager" where
  "recordError st = st\<lparr>errored := errored st + 1\<rparr>"

definition recordDuplicate :: "StatisticsManager \<Rightarrow> StatisticsManager" where
  "recordDuplicate st = st\<lparr>duplicates := duplicates st + 1\<rparr>"

definition updateQueueWaitTime :: "StatisticsManager \<Rightarrow> int \<Rightarrow> StatisticsManager" where
  "updateQueueWaitTime st waitTime = st\<lparr>queueWaitTimes := queueWaitTimes st @ [waitTime]\<rparr>"

text \<open>
  Modelled from the spec: \<^verbatim>\<open>SequenceValidator.deduplicateSequenceRequest\<close> computes the
  canonical hash of \<open>(name, data, priority)\<close>; the request is a duplicate iff the hash is
  present in the dedup window; the hash is returned either way, for the orchestrator to
  record. The window holds \<open>(hash, insertedAt)\<close> entries. The hash function and the wording
  of the reason are parameters.
\<close>

record DeduplicationResult =
  dedupIsDuplicate :: bool
  dedupHash :: string
  dedupReason :: string

record SequenceValidator =
  dedupWindow :: "(string \<times> int) list"
  canonicalHash :: "string \<Rightarrow> obj \<Rightarrow> SequencePriority \<Rightarrow> string"
  reasonText :: "bool \<Rightarrow> string \<Rightarrow> string"

definition deduplicateSequenceRequest ::
  "SequenceValidator \<Rightarrow> string \<Rightarrow> obj \<Rightarrow> SequencePriority \<Rightarrow> DeduplicationResult" where
  "deduplicateSequenceRequest v n dat prio =
     (let h = canonicalHash v n dat prio;
          present = (h \<in> fst ` set (dedupWindow v))
      in \<lparr>dedupIsDuplicate = present, dedupHash = h, dedupReason = reasonText v present h\<rparr>)"

text \<open>
  \<^verbatim>\<open>SequenceUtilities\<close> and \<^verbatim>\<open>ResourceDelegator\<close> are parameters: the methods the orchestrator
  calls, as functions. \<^verbatim>\<open>utilCreateExecutionContext\<close> is the utilities' \<^verbatim>\<open>createExecutionContext\<close>.
  The delegator's result has \<^verbatim>\<open>resolution\<close> as a plain string and an optional \<^verbatim>\<open>reason\<close>.
\<close>

record SequenceUtilities =
  extractSymphonyName :: "string \<Rightarrow> string"
  extractResourceId :: "string \<Rightarrow> obj \<Rightarrow> string"
  createSequenceInstanceId :: "string \<Rightarrow> obj \<Rightarrow> string \<Rightarrow> string"
  utilCreateExecutionContext :: "SequenceRequest \<Rightarrow> obj"

record DelegatorResult =
  delegatorHasConflict :: bool
  delegatorResolution :: string
  delegatorReason :: "string option"

record ResourceDelegator =
  checkResourceConflict :: "string \<Rightarrow> string \<Rightarrow> SequencePriority \<Rightarrow> DelegatorResult"

subsection \<open>The orchestrator's state\<close>

text \<open>
  The journal lists, oldest first, the state-changing calls made on the collaborators, so
  that the order of effects on different collaborators can be stated. \<open>Settled\<close> is the
  executor finishing the sequence it was handed.
\<close>

datatype Call =
    CallRecordSequenceQueued
  | CallRecordError
  | CallUpdateQueueWaitTime int
  | CallEnqueue SequenceRequest
  | CallDequeue
  | CallEmit EventType obj
  | CallExecuteSequence SequenceRequest
  | Settled

record Orchestrator =
  eventBus :: EventBus
  sequenceRegistry :: SequenceRegistry
  executionQueue :: ExecutionQueue
  sequenceExecutor :: SequenceExecutor
  statisticsManager :: StatisticsManager
  sequenceValidator :: SequenceValidator
  sequenceUtilities :: SequenceUtilities
  resourceDelegator :: ResourceDelegator
  journal :: "Call list"

text \<open>
  What one synchronous turn reads from the environment: \<^verbatim>\<open>Date.now()\<close> and the suffix
  \<^verbatim>\<open>Math.random().toString(36).substr(2, 9)\<close> as read by \<^verbatim>\<open>generateRequestId\<close>, the same two
  as read again by \<^verbatim>\<open>handleDuplicateSequence\<close>, and \<^verbatim>\<open>performance.now()\<close> in milliseconds.
\<close>

record Ambient =
  dateNow :: nat
  randomSuffix :: string
  dateNowAgain :: nat
  randomSuffixAgain :: string
  performanceNow :: int

text \<open>The decimal rendering of a number in a template literal.\<close>

fun showNat :: "nat \<Rightarrow> string" where
  "showNat n =
     (if n < 10 then [''0123456789'' ! n]
      else showNat (n div 10) @ [''0123456789'' ! (n mod 10)])"

declare showNat.simps [simp del]

subsection \<open>Calls on the collaborators\<close>

text \<open>Each state-changing call updates the collaborator and is entered in the journal.\<close>

definition busEmit :: "Orchestrator \<Rightarrow> EventType \<Rightarrow> obj \<Rightarrow> Orchestrator" where
  "busEmit s topic payload =
     s\<lparr>eventBus := emit (eventBus s) topic payload,
       journal := journal s @ [CallEmit topic payload]\<rparr>"

definition statsRecordSequenceQueued :: "Orchestrator \<Rightarrow> Orchestrator" where
  "statsRecordSequenceQueued s =
     s\<lparr>statisticsManager := recordSequenceQueued (statisticsManager s),
       journal := journal s @ [CallRecordSequenceQueued]\<rparr>"

definition statsRecordError :: "Orchestrator \<Rightarrow> Orchestrator" where
  "statsRecordError s =
     s\<lparr>statisticsManager := recordError (statisticsManager s),
       journal := journal s @ [CallRecordError]\<rparr>"

definition statsUpdateQueueWaitTime :: "Orchestrator \<Rightarrow> int \<Rightarrow> Orchestrator" where
  "statsUpdateQueueWaitTime s waitTime =
     s\<lparr>statisticsManager := updateQueueWaitTime (statisticsManager s) waitTime,
       journal := journal s @ [CallUpdateQueueWaitTime waitTime]\<rparr>"

definition queueEnqueue :: "Orchestrator \<Rightarrow> SequenceRequest \<Rightarrow> Orchestrator" where
  "queueEnqueue s request =
     s\<lparr>executionQueue := enqueue request (executionQueue s),
       journal := journal s @ [CallEnqueue request]\<rparr>"

definition queueDequeue :: "Orchestrator \<Rightarrow> SequenceRequest option \<times> Orchestrator" where
  "queueDequeue s =
     (case dequeue (executionQueue s) of
        (r, q) \<Rightarrow> (r, s\<lparr>executionQueue := q, journal := journal s @ [CallDequeue]\<rparr>))"

definition executorExecuteSequence ::
  "Orchestrator \<Rightarrow> SequenceRequest \<Rightarrow> MusicalSequence \<Rightarrow> Orchestrator" where
  "executorExecuteSequence s request sequence =
     s\<lparr>sequenceExecutor := executeSequenceBegin (sequenceExecutor s) request sequence,
       journal := journal s @ [CallExecuteSequence request]\<rparr>"

subsection \<open>The queue drainer\<close>

text \<open>
  \<^verbatim>\<open>processSequenceQueue\<close> is an \<^verbatim>\<open>async\<close> function: a call runs its body synchronously up to
  the first \<^verbatim>\<open>await\<close>, which is the call of \<^verbatim>\<open>executeSequence\<close>. The function below is that
  synchronous part. Its promise is either already resolved with a result, or waits for the
  executor to settle the request handed over. The inner calls of \<^verbatim>\<open>processSequenceQueue\<close>
  are not awaited: their effect on the state is kept and their promise is dropped.
\<close>

datatype DrainPromise =
    Resolved QueueProcessingResult
  | AwaitingExecutor SequenceRequest

definition notProcessed :: QueueProcessingResult where
  "notProcessed =
     \<lparr>processed = False, processedSequenceName = None, processedSuccess = None,
      processedError = None\<rparr>"

function processSequenceQueue :: "Ambient \<Rightarrow> Orchestrator \<Rightarrow> DrainPromise \<times> Orchestrator" where
  "processSequenceQueue amb s =
     (if isEmpty (executionQueue s) \<or> isSequenceRunning (sequenceExecutor s)
      then (Resolved notProcessed, s)
      else
        (case queueDequeue s of
           (None, s1) \<Rightarrow> (Resolved notProcessed, s1)
         | (Some nextRequest, s1) \<Rightarrow>
             (let waitTime = performanceNow amb - queuedAt nextRequest;
                  s2 = statsUpdateQueueWaitTime s1 waitTime
              in case registryGet (sequenceRegistry s2) (sequenceName nextRequest) of
                   None \<Rightarrow>
                     (Resolved
                        \<lparr>processed = True,
                         processedSequenceName = Some (sequenceName nextRequest),
                         processedSuccess = Some False,
                         processedError = Some (VStr ''Sequence not found in registry'')\<rparr>,
                      snd (processSequenceQueue amb s2))
                 | Some sequence \<Rightarrow>
                     (AwaitingExecutor nextRequest,
                      executorExecuteSequence s2 nextRequest sequence))))"
  by pat_completeness auto
termination
  apply (relation "measure (\<lambda>(amb, s). length (executionQueue s))")
   apply simp
  subgoal for amb s x nextRequest s1 waitTime s2
    by (cases "executionQueue s")
       (auto simp: queueDequeue_def statsUpdateQueueWaitTime_def isEmpty_def)
  done

declare processSequenceQueue.simps [simp del]

text \<open>
  What the executor's promise settles with: fulfilment (\<open>Inr ()\<close>), or rejection with any
  value at all (\<open>Inl v\<close>); an \<^verbatim>\<open>Error\<close> is an object with a \<^verbatim>\<open>message\<close> property.

  \<^verbatim>\<open>(error as Error).message\<close> is a plain property read, the cast does nothing at run time:
  on \<^verbatim>\<open>undefined\<close> and \<^verbatim>\<open>null\<close> it throws a \<^verbatim>\<open>TypeError\<close>, on an object it is the property (or
  \<^verbatim>\<open>undefined\<close> when there is none), on any other value it is \<^verbatim>\<open>undefined\<close>.
\<close>

datatype JsException = TypeError

fun messageProperty :: "val \<Rightarrow> JsException + val" where
  "messageProperty VUndefined = Inl TypeError"
| "messageProperty VNull = Inl TypeError"
| "messageProperty (VObj props) =
     Inr (case map_of props ''message'' of None \<Rightarrow> VUndefined | Some m \<Rightarrow> m)"
| "messageProperty (VConflict c) = Inr (VStr (message c))"
| "messageProperty v = Inr VUndefined"

text \<open>
  The rest of the body, run when the awaited \<^verbatim>\<open>executeSequence\<close> has settled: the \<^verbatim>\<open>try\<close>
  branch after a fulfilment, the \<^verbatim>\<open>catch\<close> branch after a rejection. The \<^verbatim>\<open>catch\<close> branch first
  calls \<^verbatim>\<open>processSequenceQueue\<close> again and then builds its result, reading the message last;
  when that read throws, the exception leaves the \<^verbatim>\<open>catch\<close> and the drainer's own promise
  rejects (\<open>Inl\<close>), the state being the one the inner call left.
\<close>

definition processSequenceQueueSettled ::
  "Ambient \<Rightarrow> Orchestrator \<Rightarrow> SequenceRequest \<Rightarrow> val + unit \<Rightarrow>
   (JsException + QueueProcessingResult) \<times> Orchestrator" where
  "processSequenceQueueSettled amb s nextRequest outcome =
     (case outcome of
        Inr _ \<Rightarrow>
          (Inr \<lparr>processed = True,
                processedSequenceName = Some (sequenceName nextRequest),
                processedSuccess = Some True,
                processedError = None\<rparr>,
           snd (processSequenceQueue amb s))
      | Inl error \<Rightarrow>
          (let s1 = snd (processSequenceQueue amb s)
           in case messageProperty error of
                Inl exception \<Rightarrow> (Inl exception, s1)
              | Inr m \<Rightarrow>
                  (Inr \<lparr>processed = True,
                        processedSequenceName = Some (sequenceName nextRequest),
                        processedSuccess = Some False,
                        processedError = Some m\<rparr>,
                   s1)))"

definition processQueueIfIdle :: "Ambient \<Rightarrow> Orchestrator \<Rightarrow> Orchestrator" where
  "processQueueIfIdle amb s =
     (if \<not> isSequenceRunning (sequenceExecutor s) then snd (processSequenceQueue amb s)
      else s)"

subsection \<open>Admission: \<^verbatim>\<open>startSequence\<close> and its helpers\<close>

definition generateRequestId :: "Ambient \<Rightarrow> string \<Rightarrow> string" where
  "generateRequestId amb n = n @ ''-'' @ showNat (dateNow amb) @ ''-'' @ randomSuffix amb"

definition handleDuplicateSequence ::
  "Orchestrator \<Rightarrow> Ambient \<Rightarrow> string \<Rightarrow> DeduplicationResult \<Rightarrow>
   SequenceStartResult \<times> Orchestrator" where
  "handleDuplicateSequence s amb n deduplicationResult =
     (let duplicateRequestId =
            n @ ''-duplicate-'' @ showNat (dateNowAgain amb) @ ''-'' @ randomSuffixAgain amb;
          s1 = busEmit s SEQUENCE_CANCELLED
                 [(''sequenceName'', VStr n),
                  (''requestId'', VStr duplicateRequestId),
                  (''reason'', VStr ''duplicate-request''),
                  (''hash'', VStr (dedupHash deduplicationResult))]
      in (\<lparr>startRequestId = duplicateRequestId,
           success = False,
           reason = Some (dedupReason deduplicationResult),
           isDuplicate = Some True\<rparr>, s1))"

record OrchestrationMetadata =
  symphonyName :: string
  resourceId :: string
  instanceId :: string

definition extractOrchestrationMetadata ::
  "Orchestrator \<Rightarrow> string \<Rightarrow> obj \<Rightarrow> OrchestrationMetadata" where
  "extractOrchestrationMetadata s n dat =
     \<lparr>symphonyName = extractSymphonyName (sequenceUtilities s) n,
      resourceId = extractResourceId (sequenceUtilities s) n dat,
      instanceId = createSequenceInstanceId (sequenceUtilities s) n dat ''NORMAL''\<rparr>"

text \<open>\<^verbatim>\<open>delegatorResult.reason || "No conflict detected"\<close>: a missing or empty reason is falsy.\<close>

definition checkResourceConflicts ::
  "Orchestrator \<Rightarrow> OrchestrationMetadata \<Rightarrow> SequencePriority \<Rightarrow> ResourceConflictResult" where
  "checkResourceConflicts s metadata prio =
     (let delegatorResult =
            checkResourceConflict (resourceDelegator s)
              (resourceId metadata) (instanceId metadata) prio
      in \<lparr>hasConflict = delegatorHasConflict delegatorResult,
          conflictType = (if delegatorHasConflict delegatorResult then SAME_RESOURCE else NONE),
          resolution =
            (if delegatorResolution delegatorResult = ''override'' then ALLOW
             else if delegatorResolution delegatorResult = ''reject'' then REJECT
             else if delegatorResolution delegatorResult = ''queue'' then QUEUE
             else ALLOW),
          message =
            (case delegatorReason delegatorResult of
               None \<Rightarrow> ''No conflict detected''
             | Some r \<Rightarrow> if r = [] then ''No conflict detected'' else r)\<rparr>)"

definition createSequenceRequest ::
  "Ambient \<Rightarrow> string \<Rightarrow> obj \<Rightarrow> SequencePriority \<Rightarrow> string \<Rightarrow> OrchestrationMetadata \<Rightarrow>
   ResourceConflictResult \<Rightarrow> string \<Rightarrow> SequenceRequest" where
  "createSequenceRequest amb n dat prio rid metadata conflictResult sequenceHash =
     \<lparr>sequenceName = n,
      data =
        AList.update ''sequenceHash'' (VStr sequenceHash)
          (AList.update ''conflictResult'' (VConflict conflictResult)
            (AList.update ''resourceId'' (VStr (resourceId metadata))
              (AList.update ''symphonyName'' (VStr (symphonyName metadata))
                (AList.update ''instanceId'' (VStr (instanceId metadata)) dat)))),
      priority = prio,
      requestId = rid,
      queuedAt = performanceNow amb\<rparr>"

text \<open>The body only writes to the console.\<close>

definition recordSequenceExecution :: "Orchestrator \<Rightarrow> string \<Rightarrow> Orchestrator" where
  "recordSequenceExecution s sequenceHash = s"

definition emitSequenceQueuedEvent ::
  "Orchestrator \<Rightarrow> string \<Rightarrow> string \<Rightarrow> SequencePriority \<Rightarrow> Orchestrator" where
  "emitSequenceQueuedEvent s n rid prio =
     busEmit s SEQUENCE_QUEUED
       [(''sequenceName'', VStr n),
        (''requestId'', VStr rid),
        (''priority'', VStr (priorityName prio)),
        (''queueLength'', VNum (int (queueSize (executionQueue s))))]"

text \<open>
  The \<^verbatim>\<open>try\<close> block of \<^verbatim>\<open>startSequence\<close>: it returns a result or throws, and in both cases
  leaves a state behind.
\<close>

definition startSequenceTry ::
  "Orchestrator \<Rightarrow> Ambient \<Rightarrow> string \<Rightarrow> obj \<Rightarrow> SequencePriority \<Rightarrow> string \<Rightarrow>
   (Error + SequenceStartResult) \<times> Orchestrator" where
  "startSequenceTry s amb n dat prio rid =
     (case registryGet (sequenceRegistry s) n of
        None \<Rightarrow> (Inl (Error (''Sequence '' @ [CHR 0x22] @ n @ [CHR 0x22] @ '' not found'')), s)
      | Some sequence \<Rightarrow>
          (let deduplicationResult =
                 deduplicateSequenceRequest (sequenceValidator s) n dat prio
           in if dedupIsDuplicate deduplicationResult
              then (case handleDuplicateSequence s amb n deduplicationResult of
                      (r, s1) \<Rightarrow> (Inr r, s1))
              else
                (let s1 = recordSequenceExecution s (dedupHash deduplicationResult);
                     orchestrationMetadata = extractOrchestrationMetadata s1 n dat;
                     conflictResult = checkResourceConflicts s1 orchestrationMetadata prio
                 in if resolution conflictResult = REJECT
                    then (Inl (Error (''Resource conflict: '' @ message conflictResult)), s1)
                    else
                      (let sequenceRequest =
                             createSequenceRequest amb n dat prio rid orchestrationMetadata
                               conflictResult (dedupHash deduplicationResult);
                           s2 = statsRecordSequenceQueued s1;
                           s3 = queueEnqueue s2 sequenceRequest;
                           s4 = processQueueIfIdle amb s3;
                           s5 = emitSequenceQueuedEvent s4 n rid prio
                       in (Inr \<lparr>startRequestId = rid, success = True, reason = None,
                                isDuplicate = None\<rparr>, s5)))))"

definition startSequence ::
  "Orchestrator \<Rightarrow> Ambient \<Rightarrow> string \<Rightarrow> obj \<Rightarrow> SequencePriority \<Rightarrow>
   SequenceStartResult \<times> Orchestrator" where
  "startSequence s amb n dat prio =
     (let rid = generateRequestId amb n in
      case startSequenceTry s amb n dat prio rid of
        (Inr r, s1) \<Rightarrow> (r, s1)
      | (Inl (Error msg), s1) \<Rightarrow>
          (\<lparr>startRequestId = rid, success = False, reason = Some msg, isDuplicate = None\<rparr>,
           statsRecordError s1))"

subsection \<open>\<^verbatim>\<open>createExecutionContext\<close>\<close>

definition createExecutionContext :: "Orchestrator \<Rightarrow> SequenceRequest \<Rightarrow> Error + obj" where
  "createExecutionContext s sequenceRequest =
     (let baseContext = utilCreateExecutionContext (sequenceUtilities s) sequenceRequest
      in case registryGet (sequenceRegistry s) (sequenceName sequenceRequest) of
           None \<Rightarrow> Inl (Error (''Sequence '' @ sequenceName sequenceRequest @ '' not found''))
         | Some sequence \<Rightarrow>
             Inr (AList.update ''priority'' (VStr (priorityName (priority sequenceRequest)))
                   (AList.update ''executionType''
                      (VStr (if priority sequenceRequest = HIGH then ''IMMEDIATE''
                             else ''CONSECUTIVE''))
                      (AList.update ''sequence'' (VSequence sequence) baseContext))))"

subsection \<open>The orchestrator at run time\<close>

text \<open>
  What can happen to an orchestrator, one synchronous turn at a time: a client calls
  \<^verbatim>\<open>startSequence\<close>; the executor settles the request it is running (its promise is fulfilled
  or rejected), which makes the \<^verbatim>\<open>processSequenceQueue\<close> call awaiting it ready to continue;
  the oldest ready call continues after its \<^verbatim>\<open>await\<close>. Turns may come in any order.
\<close>

datatype Turn =
    ClientStarts Ambient string obj SequencePriority
  | ExecutorSettles "val + unit"
  | DrainerResumes Ambient

record Runtime =
  orchestrator :: Orchestrator
  ready :: "(SequenceRequest \<times> (val + unit)) list"

fun turn :: "Turn \<Rightarrow> Runtime \<Rightarrow> Runtime" where
  "turn (ClientStarts amb n dat prio) rt =
     rt\<lparr>orchestrator := snd (startSequence (orchestrator rt) amb n dat prio)\<rparr>"
| "turn (ExecutorSettles outcome) rt =
     (case currentSequence (sequenceExecutor (orchestrator rt)) of
        None \<Rightarrow> rt
      | Some r \<Rightarrow>
          rt\<lparr>orchestrator :=
               (orchestrator rt)
                 \<lparr>sequenceExecutor := executeSequenceSettle (sequenceExecutor (orchestrator rt)),
                  journal := journal (orchestrator rt) @ [Settled]\<rparr>,
             ready := ready rt @ [(r, outcome)]\<rparr>)"
| "turn (DrainerResumes amb) rt =
     (case ready rt of
        [] \<Rightarrow> rt
      | (r, outcome) # rest \<Rightarrow>
          rt\<lparr>orchestrator := snd (processSequenceQueueSettled amb (orchestrator rt) r outcome),
             ready := rest\<rparr>)"

definition runTurns :: "Turn list \<Rightarrow> Runtime \<Rightarrow> Runtime" where
  "runTurns ts rt = fold turn ts rt"

text \<open>
  Reading a journal from a given executor status: it is serial when every hand-over to the
  executor finds it idle and every settlement finds it running; \<open>runningAfter\<close> is the
  status at the end.
\<close>

fun runningAfter :: "bool \<Rightarrow> Call list \<Rightarrow> bool" where
  "runningAfter b [] = b"
| "runningAfter b (CallExecuteSequence r # cs) = runningAfter True cs"
| "runningAfter b (Settled # cs) = runningAfter False cs"
| "runningAfter b (c # cs) = runningAfter b cs"

fun serial :: "bool \<Rightarrow> Call list \<Rightarrow> bool" where
  "serial b [] = True"
| "serial b (CallExecuteSequence r # cs) = (\<not> b \<and> serial True cs)"
| "serial b (Settled # cs) = (b \<and> serial False cs)"
| "serial b (c # cs) = serial b cs"

text \<open>The calls a drain makes: dequeue, wait-time statistic, hand-over to the executor.\<close>

fun isDrainCall :: "Call \<Rightarrow> bool" where
  "isDrainCall CallDequeue = True"
| "isDrainCall (CallUpdateQueueWaitTime w) = True"
| "isDrainCall (CallExecuteSequence r) = True"
| "isDrainCall c = False"

subsection \<open>Admitted calls and serial states\<close>

text \<open>
  A call is admitted when its sequence is registered, the validator does not report a
  duplicate and the conflict check does not resolve to \<^verbatim>\<open>REJECT\<close>; \<open>admittedRequest\<close> is
  the request \<^verbatim>\<open>startSequence\<close> builds for it. A state is serial when its journal is serial
  and agrees with the executor on whether a sequence is running.
\<close>

definition admittedRequest ::
  "Orchestrator \<Rightarrow> Ambient \<Rightarrow> string \<Rightarrow> obj \<Rightarrow> SequencePriority \<Rightarrow> SequenceRequest" where
  "admittedRequest s amb n dat prio =
     createSequenceRequest amb n dat prio (generateRequestId amb n)
       (extractOrchestrationMetadata s n dat)
       (checkResourceConflicts s (extractOrchestrationMetadata s n dat) prio)
       (dedupHash (deduplicateSequenceRequest (sequenceValidator s) n dat prio))"

definition admitted :: "Orchestrator \<Rightarrow> string \<Rightarrow> obj \<Rightarrow> SequencePriority \<Rightarrow> bool" where
  "admitted s n dat prio =
     (registryGet (sequenceRegistry s) n \<noteq> None \<and>
      \<not> dedupIsDuplicate (deduplicateSequenceRequest (sequenceValidator s) n dat prio) \<and>
      resolution (checkResourceConflicts s (extractOrchestrationMetadata s n dat) prio) \<noteq> REJECT)"

definition serialState :: "Orchestrator \<Rightarrow> bool" where
  "serialState s = (serial False (journal s) \<and>
     runningAfter False (journal s) = isSequenceRunning (sequenceExecutor s))"

subsection \<open>A concrete orchestrator\<close>

text \<open>
  One registered sequence, an idle executor, an empty queue and an empty dedup window; the
  hash is the sequence name followed by the priority, the delegator always allows.
\<close>

definition demoSequence :: MusicalSequence where
  "demoSequence = \<lparr>seqName = ''Demo.ping-symphony'', movements = [''ping'']\<rparr>"

definition demoUtilities :: SequenceUtilities where
  "demoUtilities =
     \<lparr>extractSymphonyName = (\<lambda>n. takeWhile (\<lambda>c. c \<noteq> CHR ''.'') n),
      extractResourceId = (\<lambda>n dat. case map_of dat ''elementId'' of
                                      Some (VStr e) \<Rightarrow> e
                                    | _ \<Rightarrow> takeWhile (\<lambda>c. c \<noteq> CHR ''.'') n),
      createSequenceInstanceId = (\<lambda>n dat tag. n @ '':1''),
      utilCreateExecutionContext =
        (\<lambda>r. [(''id'', VStr (requestId r)), (''executionType'', VStr ''NONE'')])\<rparr>"

definition allowAll :: ResourceDelegator where
  "allowAll =
     \<lparr>checkResourceConflict =
        (\<lambda>res inst prio.
           \<lparr>delegatorHasConflict = False, delegatorResolution = ''allow'',
            delegatorReason = None\<rparr>)\<rparr>"

definition strictDelegator :: ResourceDelegator where
  "strictDelegator =
     \<lparr>checkResourceConflict =
        (\<lambda>res inst prio.
           \<lparr>delegatorHasConflict = True, delegatorResolution = ''reject'',
            delegatorReason = Some ''resource busy''\<rparr>)\<rparr>"

definition emptyStatistics :: StatisticsManager where
  "emptyStatistics =
     \<lparr>queued = 0, started = 0, completed = 0, errored = 0, cancelled = 0, duplicates = 0,
      queueWaitTimes = []\<rparr>"

definition demoOrchestrator :: Orchestrator where
  "demoOrchestrator =
     \<lparr>eventBus = [],
      sequenceRegistry = [''Demo.ping-symphony'' \<mapsto> demoSequence],
      executionQueue = [],
      sequenceExecutor = \<lparr>currentSequence = None\<rparr>,
      statisticsManager = emptyStatistics,
      sequenceValidator =
        \<lparr>dedupWindow = [],
         canonicalHash = (\<lambda>n dat prio. n @ ''|'' @ priorityName prio),
         reasonText = (\<lambda>present h. if present then ''duplicate of '' @ h else ''new'')\<rparr>,
      sequenceUtilities = demoUtilities,
      resourceDelegator = allowAll,
      journal = []\<rparr>"

definition demoAmbient :: Ambient where
  "demoAmbient =
     \<lparr>dateNow = 1700000000000, randomSuffix = ''k3x9q0zab'',
      dateNowAgain = 1700000000001, randomSuffixAgain = ''p7m2c4wde'',
      performanceNow = 5000\<rparr>"

text \<open>A request for a sequence that is not registered, and the request a first call admits.\<close>

definition lostRequest :: SequenceRequest where
  "lostRequest =
     \<lparr>sequenceName = ''Gone.lost-symphony'', data = [], priority = NORMAL,
      requestId = ''Gone.lost-symphony-1700000000000-aaaaaaaaa'', queuedAt = 4000\<rparr>"

definition pingRequest :: SequenceRequest where
  "pingRequest =
     \<lparr>sequenceName = ''Demo.ping-symphony'', data = [], priority = NORMAL,
      requestId = ''Demo.ping-symphony-1700000000000-bbbbbbbbb'', queuedAt = 4500\<rparr>"

definition demoAmbientLater :: Ambient where
  "demoAmbientLater =
     \<lparr>dateNow = 1700000000005, randomSuffix = ''t5u8v1rst'',
      dateNowAgain = 1700000000006, randomSuffixAgain = ''h2j4k6lmn'',
      performanceNow = 5005\<rparr>"

text \<open>The same orchestrator with the hash of a \<^verbatim>\<open>NORMAL\<close> ping request in the dedup window.\<close>

definition recentlySeen :: Orchestrator where
  "recentlySeen =
     demoOrchestrator
       \<lparr>sequenceValidator :=
          (sequenceValidator demoOrchestrator)
            \<lparr>dedupWindow := [(''Demo.ping-symphony|NORMAL'', 4990)]\<rparr>\<rparr>"

definition strictOrchestrator :: Orchestrator where
  "strictOrchestrator = demoOrchestrator\<lparr>resourceDelegator := strictDelegator\<rparr>"

definition lostAtHead :: Orchestrator where
  "lostAtHead = demoOrchestrator\<lparr>executionQueue := [lostRequest, pingRequest]\<rparr>"

definition busyOrchestrator :: Orchestrator where
  "busyOrchestrator =
     demoOrchestrator
       \<lparr>executionQueue := [lostRequest],
        sequenceExecutor := \<lparr>currentSequence = Some pingRequest\<rparr>\<rparr>"

text \<open>
  The request the first call of \<^verbatim>\<open>startSequence("Demo.ping-symphony", {}, "NORMAL")\<close> builds,
  an orchestrator with one registered request waiting, and a run of six turns: two calls,
  a rejection by the executor, the drainer's continuation, a fulfilment, the continuation.
\<close>

definition firstRequest :: SequenceRequest where
  "firstRequest =
     \<lparr>sequenceName = ''Demo.ping-symphony'',
      data =
        [(''instanceId'', VStr ''Demo.ping-symphony:1''),
         (''symphonyName'', VStr ''Demo''),
         (''resourceId'', VStr ''Demo''),
         (''conflictResult'',
          VConflict \<lparr>hasConflict = False, conflictType = NONE, resolution = ALLOW,
                     message = ''No conflict detected''\<rparr>),
         (''sequenceHash'', VStr ''Demo.ping-symphony|NORMAL'')],
      priority = NORMAL,
      requestId = ''Demo.ping-symphony-1700000000000-k3x9q0zab'',
      queuedAt = 5000\<rparr>"

definition pingQueued :: Orchestrator where
  "pingQueued = demoOrchestrator\<lparr>executionQueue := [pingRequest]\<rparr>"

definition demoTurns :: "Turn list" where
  "demoTurns =
     [ClientStarts demoAmbient ''Demo.ping-symphony'' [] NORMAL,
      ClientStarts demoAmbientLater ''Demo.ping-symphony'' [(''elementId'', VStr ''elem-7'')] HIGH,
      ExecutorSettles (Inl (VObj [(''message'', VStr ''handler failed'')])),
      DrainerResumes demoAmbientLater,
      ExecutorSettles (Inr ()),
      DrainerResumes demoAmbientLater]"

section \<open>Evaluation\<close>

lemmas demo_defs = demoOrchestrator_def demoAmbient_def demoUtilities_def allowAll_def
  strictDelegator_def emptyStatistics_def demoSequence_def lostRequest_def pingRequest_def

lemmas orch_defs = startSequence_def startSequenceTry_def generateRequestId_def
  handleDuplicateSequence_def extractOrchestrationMetadata_def checkResourceConflicts_def
  createSequenceRequest_def recordSequenceExecution_def emitSequenceQueuedEvent_def
  processQueueIfIdle_def processSequenceQueueSettled_def

lemmas collab_defs = busEmit_def statsRecordSequenceQueued_def statsRecordError_def
  statsUpdateQueueWaitTime_def queueEnqueue_def queueDequeue_def executorExecuteSequence_def
  emit_def registryGet_def enqueue_def isEmpty_def queueSize_def isSequenceRunning_def
  executeSequenceBegin_def executeSequenceSettle_def recordSequenceQueued_def recordError_def
  updateQueueWaitTime_def deduplicateSequenceRequest_def notProcessed_def

lemmas demo_more = demoAmbientLater_def recentlySeen_def strictOrchestrator_def lostAtHead_def
  busyOrchestrator_def pingQueued_def

lemmas ev = demo_defs demo_more orch_defs collab_defs processSequenceQueue.simps Let_def
  showNat.simps

section \<open>The drainer\<close>

lemma drain_noop:
  "isEmpty (executionQueue s) \<or> isSequenceRunning (sequenceExecutor s) \<Longrightarrow>
   processSequenceQueue amb s = (Resolved notProcessed, s)"
  by (subst processSequenceQueue.simps) simp

lemma drain_skip:
  assumes "executionQueue s = r # q" and "\<not> isSequenceRunning (sequenceExecutor s)"
    and "registryGet (sequenceRegistry s) (sequenceName r) = None"
  shows "processSequenceQueue amb s =
     (Resolved \<lparr>processed = True, processedSequenceName = Some (sequenceName r),
                processedSuccess = Some False,
                processedError = Some (VStr ''Sequence not found in registry'')\<rparr>,
      snd (processSequenceQueue amb
             (statsUpdateQueueWaitTime (snd (queueDequeue s))
                (performanceNow amb - queuedAt r))))"
  using assms
  by (subst processSequenceQueue.simps)
     (simp add: isEmpty_def queueDequeue_def statsUpdateQueueWaitTime_def Let_def)

lemma drain_hand:
  assumes "executionQueue s = r # q" and "\<not> isSequenceRunning (sequenceExecutor s)"
    and "registryGet (sequenceRegistry s) (sequenceName r) = Some sequence"
  shows "processSequenceQueue amb s =
     (AwaitingExecutor r,
      executorExecuteSequence
        (statsUpdateQueueWaitTime (snd (queueDequeue s)) (performanceNow amb - queuedAt r))
        r sequence)"
  using assms
  by (subst processSequenceQueue.simps)
     (simp add: isEmpty_def queueDequeue_def statsUpdateQueueWaitTime_def Let_def)

lemma dequeued_queue:
  "executionQueue s = r # q \<Longrightarrow>
   executionQueue (statsUpdateQueueWaitTime (snd (queueDequeue s)) w) = q"
  by (simp add: queueDequeue_def statsUpdateQueueWaitTime_def)

lemma drain_induct [case_names noop skip hand]:
  assumes noop: "\<And>s. isEmpty (executionQueue s) \<or> isSequenceRunning (sequenceExecutor s) \<Longrightarrow> P s"
    and skip: "\<And>s r q. executionQueue s = r # q \<Longrightarrow> \<not> isSequenceRunning (sequenceExecutor s) \<Longrightarrow>
        registryGet (sequenceRegistry s) (sequenceName r) = None \<Longrightarrow>
        P (statsUpdateQueueWaitTime (snd (queueDequeue s)) (performanceNow amb - queuedAt r)) \<Longrightarrow>
        P s"
    and hand: "\<And>s r q sequence. executionQueue s = r # q \<Longrightarrow>
        \<not> isSequenceRunning (sequenceExecutor s) \<Longrightarrow>
        registryGet (sequenceRegistry s) (sequenceName r) = Some sequence \<Longrightarrow> P s"
  shows "P s"
proof (induction "length (executionQueue s)" arbitrary: s)
  case 0
  then show ?case by (simp add: noop isEmpty_def)
next
  case (Suc k)
  then obtain r q where rq: "executionQueue s = r # q" and k: "k = length q"
    by (cases "executionQueue s") auto
  show ?case
  proof (cases "isSequenceRunning (sequenceExecutor s)")
    case True
    then show ?thesis by (simp add: noop)
  next
    case idle: False
    show ?thesis
    proof (cases "registryGet (sequenceRegistry s) (sequenceName r)")
      case None
      have "k = length (executionQueue
               (statsUpdateQueueWaitTime (snd (queueDequeue s)) (performanceNow amb - queuedAt r)))"
        using k rq by (simp add: dequeued_queue)
      then show ?thesis
        using Suc.hyps(1) skip[OF rq idle None] by blast
    next
      case (Some sequence)
      then show ?thesis using hand[OF rq idle] by blast
    qed
  qed
qed

lemma dequeued_frame:
  "eventBus (statsUpdateQueueWaitTime (snd (queueDequeue s)) w) = eventBus s"
  "sequenceRegistry (statsUpdateQueueWaitTime (snd (queueDequeue s)) w) = sequenceRegistry s"
  "sequenceValidator (statsUpdateQueueWaitTime (snd (queueDequeue s)) w) = sequenceValidator s"
  "sequenceUtilities (statsUpdateQueueWaitTime (snd (queueDequeue s)) w) = sequenceUtilities s"
  "resourceDelegator (statsUpdateQueueWaitTime (snd (queueDequeue s)) w) = resourceDelegator s"
  "sequenceExecutor (statsUpdateQueueWaitTime (snd (queueDequeue s)) w) = sequenceExecutor s"
  "queued (statisticsManager (statsUpdateQueueWaitTime (snd (queueDequeue s)) w)) =
     queued (statisticsManager s)"
  "errored (statisticsManager (statsUpdateQueueWaitTime (snd (queueDequeue s)) w)) =
     errored (statisticsManager s)"
  "duplicates (statisticsManager (statsUpdateQueueWaitTime (snd (queueDequeue s)) w)) =
     duplicates (statisticsManager s)"
  "journal (statsUpdateQueueWaitTime (snd (queueDequeue s)) w) =
     journal s @ [CallDequeue, CallUpdateQueueWaitTime w]"
  by (simp_all add: queueDequeue_def statsUpdateQueueWaitTime_def updateQueueWaitTime_def
      split: prod.split)

lemma drain_frame:
  "eventBus (snd (processSequenceQueue amb s)) = eventBus s \<and>
   sequenceRegistry (snd (processSequenceQueue amb s)) = sequenceRegistry s \<and>
   sequenceValidator (snd (processSequenceQueue amb s)) = sequenceValidator s \<and>
   sequenceUtilities (snd (processSequenceQueue amb s)) = sequenceUtilities s \<and>
   resourceDelegator (snd (processSequenceQueue amb s)) = resourceDelegator s \<and>
   queued (statisticsManager (snd (processSequenceQueue amb s))) = queued (statisticsManager s) \<and>
   errored (statisticsManager (snd (processSequenceQueue amb s))) = errored (statisticsManager s) \<and>
   duplicates (statisticsManager (snd (processSequenceQueue amb s))) =
     duplicates (statisticsManager s)"
proof (induction s rule: drain_induct[where amb = amb])
  case (noop s)
  then show ?case by (simp add: drain_noop)
next
  case (skip s r q)
  then show ?case by (simp add: drain_skip dequeued_frame)
next
  case (hand s r q sequence)
  then show ?case by (simp add: drain_hand dequeued_frame executorExecuteSequence_def)
qed

lemma drain_journal:
  "\<exists>j. journal (snd (processSequenceQueue amb s)) = journal s @ j \<and> list_all isDrainCall j \<and>
        (\<not> isEmpty (executionQueue s) \<and> \<not> isSequenceRunning (sequenceExecutor s) \<longrightarrow>
           j \<noteq> [] \<and> hd j = CallDequeue)"
proof (induction s rule: drain_induct[where amb = amb])
  case (noop s)
  then show ?case by (simp add: drain_noop)
next
  case (skip s r q)
  then obtain j where
    "journal (snd (processSequenceQueue amb
        (statsUpdateQueueWaitTime (snd (queueDequeue s)) (performanceNow amb - queuedAt r)))) =
     journal s @ [CallDequeue, CallUpdateQueueWaitTime (performanceNow amb - queuedAt r)] @ j"
    and "list_all isDrainCall j"
    by (auto simp: dequeued_frame)
  then show ?case
    using skip(1-3)
    by (intro exI[of _ "[CallDequeue, CallUpdateQueueWaitTime (performanceNow amb - queuedAt r)] @ j"])
       (simp add: drain_skip)
next
  case (hand s r q sequence)
  then show ?case
    by (intro exI[of _ "[CallDequeue, CallUpdateQueueWaitTime (performanceNow amb - queuedAt r),
                         CallExecuteSequence r]"])
       (simp add: drain_hand dequeued_frame executorExecuteSequence_def)
qed

lemma runningAfter_append:
  "runningAfter b (xs @ ys) = runningAfter (runningAfter b xs) ys"
  by (induction b xs rule: runningAfter.induct) simp_all

lemma serial_append:
  "serial b (xs @ ys) = (serial b xs \<and> serial (runningAfter b xs) ys)"
  by (induction b xs rule: serial.induct) simp_all

lemma drain_serial:
  "serialState s \<Longrightarrow> serialState (snd (processSequenceQueue amb s))"
proof (induction s rule: drain_induct[where amb = amb])
  case (noop s)
  then show ?case by (simp add: drain_noop)
next
  case (skip s r q)
  have "serialState (statsUpdateQueueWaitTime (snd (queueDequeue s)) (performanceNow amb - queuedAt r))"
    using skip.prems
    by (simp add: serialState_def dequeued_frame serial_append runningAfter_append)
  then show ?case using skip by (simp add: drain_skip)
next
  case (hand s r q sequence)
  then show ?case
    by (simp add: drain_hand serialState_def dequeued_frame executorExecuteSequence_def
        serial_append runningAfter_append executeSequenceBegin_def isSequenceRunning_def)
qed

lemma drain_keeps:
  "x \<in> set (executionQueue s) \<Longrightarrow> registryGet (sequenceRegistry s) (sequenceName x) \<noteq> None \<Longrightarrow>
   x \<in> set (executionQueue (snd (processSequenceQueue amb s))) \<or>
   currentSequence (sequenceExecutor (snd (processSequenceQueue amb s))) = Some x"
proof (induction s rule: drain_induct[where amb = amb])
  case (noop s)
  then show ?case by (simp add: drain_noop)
next
  case (skip s r q)
  then have "x \<in> set q" by auto
  then show ?case using skip by (simp add: drain_skip dequeued_queue dequeued_frame)
next
  case (hand s r q sequence)
  then show ?case
    by (auto simp: drain_hand dequeued_queue executorExecuteSequence_def executeSequenceBegin_def)
qed

section \<open>The cases of \<^verbatim>\<open>startSequence\<close>\<close>

lemma start_missing:
  "registryGet (sequenceRegistry s) n = None \<Longrightarrow>
   startSequence s amb n dat prio =
     (\<lparr>startRequestId = generateRequestId amb n, success = False,
       reason = Some (''Sequence '' @ [CHR 0x22] @ n @ [CHR 0x22] @ '' not found''),
       isDuplicate = None\<rparr>, statsRecordError s)"
  by (simp add: startSequence_def startSequenceTry_def)

lemma start_duplicate:
  "registryGet (sequenceRegistry s) n = Some sq \<Longrightarrow>
   dedupIsDuplicate (deduplicateSequenceRequest (sequenceValidator s) n dat prio) \<Longrightarrow>
   startSequence s amb n dat prio =
     handleDuplicateSequence s amb n (deduplicateSequenceRequest (sequenceValidator s) n dat prio)"
  by (simp add: startSequence_def startSequenceTry_def Let_def split: prod.split)

lemma start_reject:
  "registryGet (sequenceRegistry s) n = Some sq \<Longrightarrow>
   \<not> dedupIsDuplicate (deduplicateSequenceRequest (sequenceValidator s) n dat prio) \<Longrightarrow>
   resolution (checkResourceConflicts s (extractOrchestrationMetadata s n dat) prio) = REJECT \<Longrightarrow>
   startSequence s amb n dat prio =
     (\<lparr>startRequestId = generateRequestId amb n, success = False,
       reason = Some (''Resource conflict: '' @
                  message (checkResourceConflicts s (extractOrchestrationMetadata s n dat) prio)),
       isDuplicate = None\<rparr>, statsRecordError s)"
  by (simp add: startSequence_def startSequenceTry_def Let_def recordSequenceExecution_def)

lemma start_admit:
  "admitted s n dat prio \<Longrightarrow>
   startSequence s amb n dat prio =
     (\<lparr>startRequestId = generateRequestId amb n, success = True, reason = None,
       isDuplicate = None\<rparr>,
      emitSequenceQueuedEvent
        (processQueueIfIdle amb
           (queueEnqueue (statsRecordSequenceQueued s) (admittedRequest s amb n dat prio)))
        n (generateRequestId amb n) prio)"
  by (auto simp add: admitted_def admittedRequest_def startSequence_def startSequenceTry_def
      Let_def recordSequenceExecution_def)

lemma start_cases:
  obtains (missing) "registryGet (sequenceRegistry s) n = None"
  | (duplicate) sq where "registryGet (sequenceRegistry s) n = Some sq"
      "dedupIsDuplicate (deduplicateSequenceRequest (sequenceValidator s) n dat prio)"
  | (reject) sq where "registryGet (sequenceRegistry s) n = Some sq"
      "\<not> dedupIsDuplicate (deduplicateSequenceRequest (sequenceValidator s) n dat prio)"
      "resolution (checkResourceConflicts s (extractOrchestrationMetadata s n dat) prio) = REJECT"
  | (admit) "admitted s n dat prio"
  unfolding admitted_def by (cases "registryGet (sequenceRegistry s) n") auto

lemma idle_drain_frame:
  "eventBus (processQueueIfIdle amb s) = eventBus s"
  "sequenceRegistry (processQueueIfIdle amb s) = sequenceRegistry s"
  "sequenceValidator (processQueueIfIdle amb s) = sequenceValidator s"
  "sequenceUtilities (processQueueIfIdle amb s) = sequenceUtilities s"
  "resourceDelegator (processQueueIfIdle amb s) = resourceDelegator s"
  "queued (statisticsManager (processQueueIfIdle amb s)) = queued (statisticsManager s)"
  "errored (statisticsManager (processQueueIfIdle amb s)) = errored (statisticsManager s)"
  "duplicates (statisticsManager (processQueueIfIdle amb s)) = duplicates (statisticsManager s)"
  by (simp_all add: processQueueIfIdle_def drain_frame)

lemma set_enqueue: "set (enqueue r q) = insert r (set q)"
proof -
  have "set (takeWhile (\<lambda>x. band (priority x) \<le> band (priority r)) q) \<union>
        set (dropWhile (\<lambda>x. band (priority x) \<le> band (priority r)) q) = set q"
    by (metis set_append takeWhile_dropWhile_id)
  then show ?thesis by (simp add: enqueue_def)
qed

lemma enqueue_not_empty: "\<not> isEmpty (enqueue r q)"
  by (simp add: isEmpty_def enqueue_def)

lemma idle_drain_journal:
  "\<exists>j. journal (processQueueIfIdle amb s) = journal s @ j \<and> list_all isDrainCall j \<and>
        (isSequenceRunning (sequenceExecutor s) \<longrightarrow> j = []) \<and>
        (\<not> isEmpty (executionQueue s) \<and> \<not> isSequenceRunning (sequenceExecutor s) \<longrightarrow>
           j \<noteq> [] \<and> hd j = CallDequeue)"
proof (cases "isSequenceRunning (sequenceExecutor s)")
  case True
  then show ?thesis by (simp add: processQueueIfIdle_def)
next
  case False
  then show ?thesis using drain_journal[of amb s] by (simp add: processQueueIfIdle_def)
qed

lemma drain_hands_over:
  "\<not> isSequenceRunning (sequenceExecutor s) \<Longrightarrow>
   x \<in> set (executionQueue s) \<Longrightarrow>
   registryGet (sequenceRegistry s) (sequenceName x) \<noteq> None \<Longrightarrow>
   \<exists>pre y. executionQueue s = pre @ y # executionQueue (snd (processSequenceQueue amb s)) \<and>
     list_all (\<lambda>p. registryGet (sequenceRegistry s) (sequenceName p) = None) pre \<and>
     registryGet (sequenceRegistry s) (sequenceName y) \<noteq> None \<and>
     journal (snd (processSequenceQueue amb s)) =
       journal s @
       concat (map (\<lambda>p. [CallDequeue, CallUpdateQueueWaitTime (performanceNow amb - queuedAt p)])
                 (pre @ [y])) @
       [CallExecuteSequence y] \<and>
     currentSequence (sequenceExecutor (snd (processSequenceQueue amb s))) = Some y"
proof (induction s rule: drain_induct[where amb = amb])
  case (noop s)
  then show ?case by (auto simp: isEmpty_def)
next
  case (skip s r q)
  let ?s2 = "statsUpdateQueueWaitTime (snd (queueDequeue s)) (performanceNow amb - queuedAt r)"
  have xq: "x \<in> set (executionQueue ?s2)"
    using skip.prems skip.hyps by (auto simp: dequeued_queue)
  have "\<not> isSequenceRunning (sequenceExecutor ?s2)"
    "registryGet (sequenceRegistry ?s2) (sequenceName x) \<noteq> None"
    using skip.prems skip.hyps by (simp_all add: dequeued_frame)
  from skip.IH[OF this(1) xq this(2)]
  obtain pre y where
    "q = pre @ y # executionQueue (snd (processSequenceQueue amb ?s2))"
    "list_all (\<lambda>p. registryGet (sequenceRegistry s) (sequenceName p) = None) pre"
    "registryGet (sequenceRegistry s) (sequenceName y) \<noteq> None"
    "journal (snd (processSequenceQueue amb ?s2)) =
       journal s @ [CallDequeue, CallUpdateQueueWaitTime (performanceNow amb - queuedAt r)] @
       concat (map (\<lambda>p. [CallDequeue, CallUpdateQueueWaitTime (performanceNow amb - queuedAt p)])
                 (pre @ [y])) @
       [CallExecuteSequence y]"
    "currentSequence (sequenceExecutor (snd (processSequenceQueue amb ?s2))) = Some y"
    using skip.hyps(1) by (auto simp: dequeued_queue dequeued_frame)
  then show ?case
    using skip.hyps
    by (intro exI[of _ "r # pre"] exI[of _ y]) (simp add: drain_skip)
next
  case (hand s r q sequence)
  then show ?case
    by (intro exI[of _ "[]"] exI[of _ r])
       (simp add: drain_hand dequeued_queue dequeued_frame executorExecuteSequence_def
          executeSequenceBegin_def)
qed

section \<open>Serial runs\<close>

lemma serialState_calls:
  "serialState (statsRecordError s) = serialState s"
  "serialState (statsRecordSequenceQueued s) = serialState s"
  "serialState (queueEnqueue s r) = serialState s"
  "serialState (busEmit s topic payload) = serialState s"
  by (simp_all add: serialState_def statsRecordError_def statsRecordSequenceQueued_def
      queueEnqueue_def busEmit_def serial_append runningAfter_append)

lemma idle_drain_serial: "serialState s \<Longrightarrow> serialState (processQueueIfIdle amb s)"
  by (simp add: processQueueIfIdle_def drain_serial)

lemma start_serial:
  assumes "serialState s"
  shows "serialState (snd (startSequence s amb n dat prio))"
proof (cases rule: start_cases[where s = s and n = n and dat = dat and prio = prio])
  case missing
  then show ?thesis using assms by (simp add: start_missing serialState_calls)
next
  case (duplicate sq)
  then show ?thesis
    using assms by (simp add: start_duplicate handleDuplicateSequence_def Let_def serialState_calls)
next
  case (reject sq)
  then show ?thesis using assms by (simp add: start_reject serialState_calls)
next
  case admit
  then show ?thesis
    using assms
    by (simp add: start_admit emitSequenceQueuedEvent_def serialState_calls idle_drain_serial)
qed

lemma settled_state:
  "snd (processSequenceQueueSettled amb s r outcome) = snd (processSequenceQueue amb s)"
  by (simp add: processSequenceQueueSettled_def Let_def split: sum.split)

lemma settled_serial:
  "serialState s \<Longrightarrow> serialState (snd (processSequenceQueueSettled amb s r outcome))"
  by (simp add: settled_state drain_serial)

lemma turn_serial:
  assumes "serialState (orchestrator rt)"
  shows "serialState (orchestrator (turn t rt))"
proof (cases t)
  case (ClientStarts amb n dat prio)
  then show ?thesis using assms by (simp add: start_serial)
next
  case (ExecutorSettles outcome)
  then show ?thesis
    using assms
    by (auto simp: serialState_def serial_append runningAfter_append isSequenceRunning_def
        executeSequenceSettle_def split: option.split)
next
  case (DrainerResumes amb)
  then show ?thesis
    using assms by (auto simp: settled_serial split: list.split)
qed

lemma runTurns_serial:
  "serialState (orchestrator rt) \<Longrightarrow> serialState (orchestrator (runTurns ts rt))"
  unfolding runTurns_def
  by (induction ts arbitrary: rt) (simp_all add: turn_serial)

lemma demo_run:
  "count_list (journal (orchestrator (runTurns demoTurns \<lparr>orchestrator = demoOrchestrator, ready = []\<rparr>))) Settled = 2"
  by (simp add: demoTurns_def runTurns_def ev)

section \<open>Claims\<close>

subsection \<open>C1: recording the hash in the dedup window\<close>


subsection \<open>C2: a request whose sequence is gone at drain time\<close>

text \<open>
  C2 as stated: for a dequeued request whose sequence is no longer registered, the drainer
  emits \<^verbatim>\<open>SEQUENCE_FAILED\<close> with reason \<^verbatim>\<open>missing-at-drain\<close>. It does not: with such a request
  alone in the queue the call resolves to a failure result, the bus stays empty, and the
  only calls made are the dequeue and the wait-time update.
\<close>

theorem processSequenceQueue_missing_no_event:
  "fst (processSequenceQueue demoAmbient (demoOrchestrator\<lparr>executionQueue := [lostRequest]\<rparr>)) =
     Resolved \<lparr>processed = True, processedSequenceName = Some ''Gone.lost-symphony'',
               processedSuccess = Some False,
               processedError = Some (VStr ''Sequence not found in registry'')\<rparr> \<and>
   eventBus (snd (processSequenceQueue demoAmbient
     (demoOrchestrator\<lparr>executionQueue := [lostRequest]\<rparr>))) = [] \<and>
   journal (snd (processSequenceQueue demoAmbient
     (demoOrchestrator\<lparr>executionQueue := [lostRequest]\<rparr>))) =
     [CallDequeue, CallUpdateQueueWaitTime 1000]"
  by (simp add: ev)

text \<open>
  C2 as amended: for a dequeued request whose sequence is no longer registered, the drainer
  emits nothing on the bus; its promise resolves to \<^verbatim>\<open>processed: true, success: false\<close> with the
  error \<^verbatim>\<open>Sequence not found in registry\<close>, and it goes on draining: the state it leaves is
  the one a drain leaves when started after the dequeue and the wait-time update.
\<close>

theorem processSequenceQueue_missing_at_drain:
  assumes "executionQueue s = r # q" and "\<not> isSequenceRunning (sequenceExecutor s)"
    and "registryGet (sequenceRegistry s) (sequenceName r) = None"
  shows "fst (processSequenceQueue amb s) =
           Resolved \<lparr>processed = True, processedSequenceName = Some (sequenceName r),
                     processedSuccess = Some False,
                     processedError = Some (VStr ''Sequence not found in registry'')\<rparr> \<and>
         snd (processSequenceQueue amb s) =
           snd (processSequenceQueue amb
                  (statsUpdateQueueWaitTime (snd (queueDequeue s))
                     (performanceNow amb - queuedAt r))) \<and>
         eventBus (snd (processSequenceQueue amb s)) = eventBus s"
  using assms by (simp add: drain_skip drain_frame dequeued_frame)

text \<open>
  The amended C2 at a queue holding an unregistered request and then a registered one: the
  first is dropped without an event, the second is handed to the executor.
\<close>

theorem processSequenceQueue_missing_at_drain_witness:
  "(executionQueue lostAtHead = lostRequest # [pingRequest] \<and>
    \<not> isSequenceRunning (sequenceExecutor lostAtHead) \<and>
    registryGet (sequenceRegistry lostAtHead) (sequenceName lostRequest) = None) \<and>
   (fst (processSequenceQueue demoAmbient lostAtHead) =
      Resolved \<lparr>processed = True, processedSequenceName = Some (sequenceName lostRequest),
                processedSuccess = Some False,
                processedError = Some (VStr ''Sequence not found in registry'')\<rparr> \<and>
    snd (processSequenceQueue demoAmbient lostAtHead) =
      snd (processSequenceQueue demoAmbient
             (statsUpdateQueueWaitTime (snd (queueDequeue lostAtHead))
                (performanceNow demoAmbient - queuedAt lostRequest))) \<and>
    eventBus (snd (processSequenceQueue demoAmbient lostAtHead)) = eventBus lostAtHead) \<and>
   currentSequence (sequenceExecutor (snd (processSequenceQueue demoAmbient lostAtHead))) =
     Some pingRequest"
proof -
  have h1: "executionQueue lostAtHead = lostRequest # [pingRequest]"
    by (simp add: lostAtHead_def)
  have h2: "\<not> isSequenceRunning (sequenceExecutor lostAtHead)"
    by (simp add: lostAtHead_def demoOrchestrator_def isSequenceRunning_def)
  have h3: "registryGet (sequenceRegistry lostAtHead) (sequenceName lostRequest) = None"
    by (simp add: lostAtHead_def demoOrchestrator_def registryGet_def lostRequest_def)
  have h4: "currentSequence (sequenceExecutor (snd (processSequenceQueue demoAmbient lostAtHead))) =
     Some pingRequest"
    by (simp add: ev)
  show ?thesis
    using processSequenceQueue_missing_at_drain[OF h1 h2 h3, of demoAmbient] h1 h2 h3 h4
    by blast
qed

subsection \<open>C3: a duplicate request\<close>

text \<open>
  C3 as stated: a call the validator reports as a duplicate emits \<^verbatim>\<open>SEQUENCE_CANCELLED\<close> with
  reason \<^verbatim>\<open>duplicate-request\<close>, records the duplicate in the statistics manager, and returns
  \<^verbatim>\<open>success: false, isDuplicate: true\<close> with a fresh id tagged \<^verbatim>\<open>duplicate\<close>, enqueuing nothing.
  The statistics are not touched: with the hash in the window the call returns the
  duplicate result, the statistics are the initial ones, the duplicates counter is 0, and
  the only call on a collaborator is the emission.
\<close>

theorem duplicate_leaves_statistics:
  "fst (startSequence recentlySeen demoAmbient ''Demo.ping-symphony'' [] NORMAL) =
     \<lparr>startRequestId = ''Demo.ping-symphony-duplicate-1700000000001-p7m2c4wde'',
      success = False, reason = Some ''duplicate of Demo.ping-symphony|NORMAL'',
      isDuplicate = Some True\<rparr> \<and>
   statisticsManager (snd (startSequence recentlySeen demoAmbient ''Demo.ping-symphony'' [] NORMAL)) =
     emptyStatistics \<and>
   duplicates (statisticsManager
     (snd (startSequence recentlySeen demoAmbient ''Demo.ping-symphony'' [] NORMAL))) = 0 \<and>
   journal (snd (startSequence recentlySeen demoAmbient ''Demo.ping-symphony'' [] NORMAL)) =
     [CallEmit SEQUENCE_CANCELLED
        [(''sequenceName'', VStr ''Demo.ping-symphony''),
         (''requestId'', VStr ''Demo.ping-symphony-duplicate-1700000000001-p7m2c4wde''),
         (''reason'', VStr ''duplicate-request''),
         (''hash'', VStr ''Demo.ping-symphony|NORMAL'')]]"
  by (simp add: ev)

text \<open>
  C3 as amended: a call the validator reports as a duplicate emits \<^verbatim>\<open>SEQUENCE_CANCELLED\<close>
  carrying the name, the new id, the reason \<^verbatim>\<open>duplicate-request\<close> and the hash, makes no call
  on the statistics manager, and returns \<^verbatim>\<open>success: false, isDuplicate: true\<close> (with the
  validator's reason) under a freshly generated id of the form
  \<^verbatim>\<open><name>-duplicate-<time>-<random>\<close>; the queue and the executor are untouched.
\<close>

theorem startSequence_duplicate_cancelled:
  assumes "registryGet (sequenceRegistry s) n = Some sq"
    and "dedupIsDuplicate (deduplicateSequenceRequest (sequenceValidator s) n dat prio)"
  shows "fst (startSequence s amb n dat prio) =
           \<lparr>startRequestId =
              n @ ''-duplicate-'' @ showNat (dateNowAgain amb) @ ''-'' @ randomSuffixAgain amb,
            success = False,
            reason = Some (dedupReason
                       (deduplicateSequenceRequest (sequenceValidator s) n dat prio)),
            isDuplicate = Some True\<rparr> \<and>
         eventBus (snd (startSequence s amb n dat prio)) =
           eventBus s @
           [(SEQUENCE_CANCELLED,
             [(''sequenceName'', VStr n),
              (''requestId'', VStr (n @ ''-duplicate-'' @ showNat (dateNowAgain amb) @ ''-'' @
                                    randomSuffixAgain amb)),
              (''reason'', VStr ''duplicate-request''),
              (''hash'', VStr (dedupHash
                          (deduplicateSequenceRequest (sequenceValidator s) n dat prio)))])] \<and>
         statisticsManager (snd (startSequence s amb n dat prio)) = statisticsManager s \<and>
         executionQueue (snd (startSequence s amb n dat prio)) = executionQueue s \<and>
         sequenceExecutor (snd (startSequence s amb n dat prio)) = sequenceExecutor s \<and>
         journal (snd (startSequence s amb n dat prio)) =
           journal s @
           [CallEmit SEQUENCE_CANCELLED
             [(''sequenceName'', VStr n),
              (''requestId'', VStr (n @ ''-duplicate-'' @ showNat (dateNowAgain amb) @ ''-'' @
                                    randomSuffixAgain amb)),
              (''reason'', VStr ''duplicate-request''),
              (''hash'', VStr (dedupHash
                          (deduplicateSequenceRequest (sequenceValidator s) n dat prio)))]]"
  using assms
  by (simp add: start_duplicate handleDuplicateSequence_def busEmit_def emit_def Let_def)

text \<open>The amended C3 at the orchestrator that has seen the request.\<close>

theorem startSequence_duplicate_cancelled_witness:
  "registryGet (sequenceRegistry recentlySeen) ''Demo.ping-symphony'' = Some demoSequence \<and>
   dedupIsDuplicate (deduplicateSequenceRequest (sequenceValidator recentlySeen)
      ''Demo.ping-symphony'' [] NORMAL) \<and>
   statisticsManager (snd (startSequence recentlySeen demoAmbient ''Demo.ping-symphony'' [] NORMAL)) =
     statisticsManager recentlySeen \<and>
   executionQueue (snd (startSequence recentlySeen demoAmbient ''Demo.ping-symphony'' [] NORMAL)) =
     executionQueue recentlySeen \<and>
   isDuplicate (fst (startSequence recentlySeen demoAmbient ''Demo.ping-symphony'' [] NORMAL)) =
     Some True"
proof -
  have h1: "registryGet (sequenceRegistry recentlySeen) ''Demo.ping-symphony'' = Some demoSequence"
    by (simp add: ev)
  have h2: "dedupIsDuplicate (deduplicateSequenceRequest (sequenceValidator recentlySeen)
      ''Demo.ping-symphony'' [] NORMAL)"
    by (simp add: ev)
  show ?thesis
    using startSequence_duplicate_cancelled[OF h1 h2, of demoAmbient] h1 h2 by simp
qed

subsection \<open>C4: admission-time errors\<close>

text \<open>
  C4 as stated: when the sequence is missing from the registry, or the conflict resolution
  is \<^verbatim>\<open>REJECT\<close>, the call returns \<^verbatim>\<open>success: false\<close> with a reason and also emits a
  cancellation or failure event. No event is emitted: for an unregistered name, and for a
  registered one under a delegator that rejects, the call fails with its reason and the
  bus stays empty.
\<close>

theorem startSequence_error_no_event:
  "fst (startSequence demoOrchestrator demoAmbient ''Nope.none-symphony'' [] NORMAL) =
     \<lparr>startRequestId = ''Nope.none-symphony-1700000000000-k3x9q0zab'', success = False,
      reason = Some (''Sequence '' @ [CHR 0x22] @ ''Nope.none-symphony'' @ [CHR 0x22] @
                     '' not found''),
      isDuplicate = None\<rparr> \<and>
   eventBus (snd (startSequence demoOrchestrator demoAmbient ''Nope.none-symphony'' [] NORMAL)) = [] \<and>
   fst (startSequence strictOrchestrator demoAmbient ''Demo.ping-symphony'' [] NORMAL) =
     \<lparr>startRequestId = ''Demo.ping-symphony-1700000000000-k3x9q0zab'', success = False,
      reason = Some ''Resource conflict: resource busy'', isDuplicate = None\<rparr> \<and>
   eventBus (snd (startSequence strictOrchestrator demoAmbient ''Demo.ping-symphony'' [] NORMAL)) = []"
  by (simp add: ev)

text \<open>
  C4 as amended: when the sequence is missing from the registry, or the conflict resolution
  is \<^verbatim>\<open>REJECT\<close>, the call returns \<^verbatim>\<open>success: false\<close> under the request id generated on entry,
  with the reason \<^verbatim>\<open>Sequence "<name>" not found\<close> or \<^verbatim>\<open>Resource conflict: <message>\<close>, and its only
  effect is one \<^verbatim>\<open>recordError\<close> on the statistics manager: no event is emitted, and the queue
  is untouched.
\<close>

theorem startSequence_admission_error:
  "(registryGet (sequenceRegistry s) n = None \<longrightarrow>
      fst (startSequence s amb n dat prio) =
        \<lparr>startRequestId = generateRequestId amb n, success = False,
         reason = Some (''Sequence '' @ [CHR 0x22] @ n @ [CHR 0x22] @ '' not found''),
         isDuplicate = None\<rparr> \<and>
      snd (startSequence s amb n dat prio) = statsRecordError s) \<and>
   (registryGet (sequenceRegistry s) n \<noteq> None \<and>
    \<not> dedupIsDuplicate (deduplicateSequenceRequest (sequenceValidator s) n dat prio) \<and>
    resolution (checkResourceConflicts s (extractOrchestrationMetadata s n dat) prio) = REJECT \<longrightarrow>
      fst (startSequence s amb n dat prio) =
        \<lparr>startRequestId = generateRequestId amb n, success = False,
         reason = Some (''Resource conflict: '' @
                    message (checkResourceConflicts s (extractOrchestrationMetadata s n dat) prio)),
         isDuplicate = None\<rparr> \<and>
      snd (startSequence s amb n dat prio) = statsRecordError s) \<and>
   eventBus (statsRecordError s) = eventBus s \<and>
   executionQueue (statsRecordError s) = executionQueue s \<and>
   errored (statisticsManager (statsRecordError s)) = errored (statisticsManager s) + 1 \<and>
   journal (statsRecordError s) = journal s @ [CallRecordError]"
  by (auto simp: start_missing start_reject statsRecordError_def recordError_def)

text \<open>The amended C4 at an unregistered name and at a rejecting delegator.\<close>

theorem startSequence_admission_error_witness:
  "registryGet (sequenceRegistry demoOrchestrator) ''Nope.none-symphony'' = None \<and>
   snd (startSequence demoOrchestrator demoAmbient ''Nope.none-symphony'' [] NORMAL) =
     statsRecordError demoOrchestrator \<and>
   (registryGet (sequenceRegistry strictOrchestrator) ''Demo.ping-symphony'' \<noteq> None \<and>
    \<not> dedupIsDuplicate (deduplicateSequenceRequest (sequenceValidator strictOrchestrator)
         ''Demo.ping-symphony'' [] NORMAL) \<and>
    resolution (checkResourceConflicts strictOrchestrator
      (extractOrchestrationMetadata strictOrchestrator ''Demo.ping-symphony'' []) NORMAL) = REJECT) \<and>
   snd (startSequence strictOrchestrator demoAmbient ''Demo.ping-symphony'' [] NORMAL) =
     statsRecordError strictOrchestrator \<and>
   reason (fst (startSequence strictOrchestrator demoAmbient ''Demo.ping-symphony'' [] NORMAL)) =
     Some ''Resource conflict: resource busy'' \<and>
   eventBus (statsRecordError strictOrchestrator) = []"
proof -
  have h1: "registryGet (sequenceRegistry demoOrchestrator) ''Nope.none-symphony'' = None"
    by (simp add: ev)
  have h2: "registryGet (sequenceRegistry strictOrchestrator) ''Demo.ping-symphony'' \<noteq> None \<and>
    \<not> dedupIsDuplicate (deduplicateSequenceRequest (sequenceValidator strictOrchestrator)
         ''Demo.ping-symphony'' [] NORMAL) \<and>
    resolution (checkResourceConflicts strictOrchestrator
      (extractOrchestrationMetadata strictOrchestrator ''Demo.ping-symphony'' []) NORMAL) = REJECT"
    by (simp add: ev)
  have m: "message (checkResourceConflicts strictOrchestrator
      (extractOrchestrationMetadata strictOrchestrator ''Demo.ping-symphony'' []) NORMAL) =
      ''resource busy''"
    by (simp add: ev)
  have b: "eventBus strictOrchestrator = []"
    by (simp add: strictOrchestrator_def demoOrchestrator_def)
  show ?thesis
    using startSequence_admission_error[of demoOrchestrator "''Nope.none-symphony''" demoAmbient "[]" NORMAL]
      startSequence_admission_error[of strictOrchestrator "''Demo.ping-symphony''" demoAmbient "[]" NORMAL]
      h1 h2 m b
    by simp
qed

subsection \<open>C5: what an admitted call does, in order\<close>

text \<open>
  C5 as stated: an admitted call records the queued statistic, enqueues the request,
  triggers a drain if the executor is idle, scheduled on the next cooperative turn, emits
  \<^verbatim>\<open>SEQUENCE_QUEUED\<close> with the queue length, and returns. The drain is not deferred: the call of
  the \<^verbatim>\<open>async\<close> drainer runs up to its first \<^verbatim>\<open>await\<close> at once. On an idle orchestrator with an
  empty queue the request has been dequeued and handed to the executor before the event
  is emitted, and the event reports a queue length of 0.
\<close>

theorem startSequence_drains_before_event:
  "success (fst (startSequence demoOrchestrator demoAmbient ''Demo.ping-symphony'' [] NORMAL)) \<and>
   journal (snd (startSequence demoOrchestrator demoAmbient ''Demo.ping-symphony'' [] NORMAL)) =
     [CallRecordSequenceQueued, CallEnqueue firstRequest, CallDequeue,
      CallUpdateQueueWaitTime 0, CallExecuteSequence firstRequest,
      CallEmit SEQUENCE_QUEUED
        [(''sequenceName'', VStr ''Demo.ping-symphony''),
         (''requestId'', VStr ''Demo.ping-symphony-1700000000000-k3x9q0zab''),
         (''priority'', VStr ''NORMAL''),
         (''queueLength'', VNum 0)]] \<and>
   executionQueue (snd (startSequence demoOrchestrator demoAmbient ''Demo.ping-symphony'' [] NORMAL)) = [] \<and>
   currentSequence (sequenceExecutor
     (snd (startSequence demoOrchestrator demoAmbient ''Demo.ping-symphony'' [] NORMAL))) =
     Some firstRequest"
  by (simp add: firstRequest_def ev)

text \<open>
  C5 as amended: an admitted call, in order, records the queued statistic and enqueues the
  built request. If the executor is running, nothing is drained: the queue is the old one
  with the request enqueued and the executor is untouched. If the executor is idle, the
  synchronous part of a queue drain runs within the same call: requests are dequeued from
  the head, each with its wait-time update, the unregistered ones are dropped, and the
  first registered one is handed to the executor, which is then running it (there is one,
  since the admitted request is registered). Then the call emits \<^verbatim>\<open>SEQUENCE_QUEUED\<close> carrying
  the name, the request id, the priority and the queue length as it is after that drain,
  and returns the request id with \<^verbatim>\<open>success: true\<close>. The journal is exactly these calls.
\<close>

theorem startSequence_admitted_order:
  assumes "admitted s n dat prio"
  shows "fst (startSequence s amb n dat prio) =
           \<lparr>startRequestId = generateRequestId amb n, success = True, reason = None,
            isDuplicate = None\<rparr> \<and>
         (if isSequenceRunning (sequenceExecutor s)
          then executionQueue (snd (startSequence s amb n dat prio)) =
                 enqueue (admittedRequest s amb n dat prio) (executionQueue s) \<and>
               sequenceExecutor (snd (startSequence s amb n dat prio)) = sequenceExecutor s \<and>
               journal (snd (startSequence s amb n dat prio)) =
                 journal s @
                 [CallRecordSequenceQueued, CallEnqueue (admittedRequest s amb n dat prio),
                  CallEmit SEQUENCE_QUEUED
                    [(''sequenceName'', VStr n),
                     (''requestId'', VStr (generateRequestId amb n)),
                     (''priority'', VStr (priorityName prio)),
                     (''queueLength'', VNum (int (length (executionQueue s)) + 1))]]
          else (\<exists>pre y.
               enqueue (admittedRequest s amb n dat prio) (executionQueue s) =
                 pre @ y # executionQueue (snd (startSequence s amb n dat prio)) \<and>
               list_all (\<lambda>p. registryGet (sequenceRegistry s) (sequenceName p) = None) pre \<and>
               registryGet (sequenceRegistry s) (sequenceName y) \<noteq> None \<and>
               currentSequence (sequenceExecutor (snd (startSequence s amb n dat prio))) = Some y \<and>
               journal (snd (startSequence s amb n dat prio)) =
                 journal s @
                 [CallRecordSequenceQueued, CallEnqueue (admittedRequest s amb n dat prio)] @
                 concat (map (\<lambda>p. [CallDequeue,
                                     CallUpdateQueueWaitTime (performanceNow amb - queuedAt p)])
                           (pre @ [y])) @
                 [CallExecuteSequence y,
                  CallEmit SEQUENCE_QUEUED
                    [(''sequenceName'', VStr n),
                     (''requestId'', VStr (generateRequestId amb n)),
                     (''priority'', VStr (priorityName prio)),
                     (''queueLength'',
                      VNum (int (length (executionQueue
                                  (snd (startSequence s amb n dat prio))))))]])) \<and>
         eventBus (snd (startSequence s amb n dat prio)) =
           eventBus s @
           [(SEQUENCE_QUEUED,
             [(''sequenceName'', VStr n),
              (''requestId'', VStr (generateRequestId amb n)),
              (''priority'', VStr (priorityName prio)),
              (''queueLength'',
               VNum (int (length (executionQueue (snd (startSequence s amb n dat prio))))))])] \<and>
         queued (statisticsManager (snd (startSequence s amb n dat prio))) =
           queued (statisticsManager s) + 1"
    (is "?A \<and> (if ?R then ?T else ?E) \<and> ?C \<and> ?D")
proof -
  let ?req = "admittedRequest s amb n dat prio"
  let ?s3 = "queueEnqueue (statsRecordSequenceQueued s) ?req"
  let ?s4 = "processQueueIfIdle amb ?s3"
  have ex: "sequenceExecutor ?s3 = sequenceExecutor s"
    and q3: "executionQueue ?s3 = enqueue ?req (executionQueue s)"
    and r3: "sequenceRegistry ?s3 = sequenceRegistry s"
    and j3: "journal ?s3 = journal s @ [CallRecordSequenceQueued, CallEnqueue ?req]"
    and c3: "queued (statisticsManager ?s3) = queued (statisticsManager s) + 1"
    and b3: "eventBus ?s3 = eventBus s"
    by (simp_all add: queueEnqueue_def statsRecordSequenceQueued_def recordSequenceQueued_def)
  have snd_eq: "snd (startSequence s amb n dat prio) =
      emitSequenceQueuedEvent ?s4 n (generateRequestId amb n) prio"
    by (simp add: start_admit[OF assms])
  have q: "executionQueue (snd (startSequence s amb n dat prio)) = executionQueue ?s4"
    and e: "sequenceExecutor (snd (startSequence s amb n dat prio)) = sequenceExecutor ?s4"
    and j: "journal (snd (startSequence s amb n dat prio)) =
         journal ?s4 @
         [CallEmit SEQUENCE_QUEUED
            [(''sequenceName'', VStr n),
             (''requestId'', VStr (generateRequestId amb n)),
             (''priority'', VStr (priorityName prio)),
             (''queueLength'', VNum (int (length (executionQueue ?s4))))]]"
    and b: "eventBus (snd (startSequence s amb n dat prio)) =
         eventBus ?s4 @
         [(SEQUENCE_QUEUED,
            [(''sequenceName'', VStr n),
             (''requestId'', VStr (generateRequestId amb n)),
             (''priority'', VStr (priorityName prio)),
             (''queueLength'', VNum (int (length (executionQueue ?s4))))])]"
    and c: "queued (statisticsManager (snd (startSequence s amb n dat prio))) =
         queued (statisticsManager ?s4)"
    unfolding snd_eq
    by (simp_all add: emitSequenceQueuedEvent_def busEmit_def emit_def queueSize_def)
  have a: ?A
    by (simp add: start_admit[OF assms])
  have cc: ?C
    unfolding b q by (simp add: idle_drain_frame b3)
  have d: ?D
    unfolding c by (simp add: idle_drain_frame c3)
  have branch: "if ?R then ?T else ?E"
  proof (cases ?R)
    case True
    then have same: "?s4 = ?s3"
      by (simp add: processQueueIfIdle_def ex)
    have len: "length (enqueue ?req (executionQueue s)) = length (executionQueue s) + 1"
    proof -
      have "length (takeWhile (\<lambda>x. band (priority x) \<le> band (priority ?req))
                      (executionQueue s)) +
            length (dropWhile (\<lambda>x. band (priority x) \<le> band (priority ?req))
                      (executionQueue s)) =
            length (executionQueue s)"
        by (metis length_append takeWhile_dropWhile_id)
      then show ?thesis by (simp add: enqueue_def)
    qed
    have ?T
      unfolding q e j same q3 ex j3 len by simp
    with True show ?thesis by simp
  next
    case False
    have nm: "sequenceName ?req = n"
      by (simp add: admittedRequest_def createSequenceRequest_def)
    have reg: "registryGet (sequenceRegistry ?s3) (sequenceName ?req) \<noteq> None"
      unfolding r3 nm using assms by (simp add: admitted_def)
    have inq: "?req \<in> set (executionQueue ?s3)"
      by (simp add: q3 set_enqueue)
    have idle: "\<not> isSequenceRunning (sequenceExecutor ?s3)"
      using False by (simp add: ex)
    have run: "?s4 = snd (processSequenceQueue amb ?s3)"
      using idle by (simp add: processQueueIfIdle_def)
    from drain_hands_over[OF idle inq reg, of amb]
    obtain pre y where h:
      "enqueue ?req (executionQueue s) = pre @ y # executionQueue ?s4"
      "list_all (\<lambda>p. registryGet (sequenceRegistry s) (sequenceName p) = None) pre"
      "registryGet (sequenceRegistry s) (sequenceName y) \<noteq> None"
      "journal ?s4 =
         journal s @ [CallRecordSequenceQueued, CallEnqueue ?req] @
         concat (map (\<lambda>p. [CallDequeue,
                             CallUpdateQueueWaitTime (performanceNow amb - queuedAt p)])
                   (pre @ [y])) @
         [CallExecuteSequence y]"
      "currentSequence (sequenceExecutor ?s4) = Some y"
      unfolding q3 r3 j3 run[symmetric] by auto
    have ?E
      unfolding q e j using h by (intro exI[of _ pre] exI[of _ y]) simp
    with False show ?thesis by simp
  qed
  from a branch cc d show ?thesis by blast
qed

text \<open>The amended C5 at the first call on the idle orchestrator.\<close>

theorem startSequence_admitted_order_witness:
  "(admitted demoOrchestrator ''Demo.ping-symphony'' [] NORMAL \<and>
    \<not> isSequenceRunning (sequenceExecutor demoOrchestrator)) \<and>
   fst (startSequence demoOrchestrator demoAmbient ''Demo.ping-symphony'' [] NORMAL) =
     \<lparr>startRequestId = generateRequestId demoAmbient ''Demo.ping-symphony'', success = True,
      reason = None, isDuplicate = None\<rparr> \<and>
   (\<exists>pre y.
      enqueue (admittedRequest demoOrchestrator demoAmbient ''Demo.ping-symphony'' [] NORMAL)
        (executionQueue demoOrchestrator) =
        pre @ y # executionQueue
          (snd (startSequence demoOrchestrator demoAmbient ''Demo.ping-symphony'' [] NORMAL)) \<and>
      currentSequence (sequenceExecutor
        (snd (startSequence demoOrchestrator demoAmbient ''Demo.ping-symphony'' [] NORMAL))) =
        Some y \<and>
      journal (snd (startSequence demoOrchestrator demoAmbient ''Demo.ping-symphony'' [] NORMAL)) =
        journal demoOrchestrator @
        [CallRecordSequenceQueued,
         CallEnqueue (admittedRequest demoOrchestrator demoAmbient ''Demo.ping-symphony'' []
                        NORMAL)] @
        concat (map (\<lambda>p. [CallDequeue,
                            CallUpdateQueueWaitTime (performanceNow demoAmbient - queuedAt p)])
                  (pre @ [y])) @
        [CallExecuteSequence y,
         CallEmit SEQUENCE_QUEUED
           [(''sequenceName'', VStr ''Demo.ping-symphony''),
            (''requestId'', VStr (generateRequestId demoAmbient ''Demo.ping-symphony'')),
            (''priority'', VStr (priorityName NORMAL)),
            (''queueLength'',
             VNum (int (length (executionQueue
               (snd (startSequence demoOrchestrator demoAmbient ''Demo.ping-symphony'' []
                       NORMAL))))))]]) \<and>
   currentSequence (sequenceExecutor
     (snd (startSequence demoOrchestrator demoAmbient ''Demo.ping-symphony'' [] NORMAL))) =
     Some firstRequest \<and>
   eventBus (snd (startSequence demoOrchestrator demoAmbient ''Demo.ping-symphony'' [] NORMAL)) =
     [(SEQUENCE_QUEUED,
       [(''sequenceName'', VStr ''Demo.ping-symphony''),
        (''requestId'', VStr ''Demo.ping-symphony-1700000000000-k3x9q0zab''),
        (''priority'', VStr ''NORMAL''),
        (''queueLength'', VNum 0)])] \<and>
   queued (statisticsManager
     (snd (startSequence demoOrchestrator demoAmbient ''Demo.ping-symphony'' [] NORMAL))) =
     queued (statisticsManager demoOrchestrator) + 1"
proof -
  have h: "admitted demoOrchestrator ''Demo.ping-symphony'' [] NORMAL"
    by (simp add: admitted_def ev)
  have idle: "\<not> isSequenceRunning (sequenceExecutor demoOrchestrator)"
    by (simp add: demoOrchestrator_def isSequenceRunning_def)
  have c: "currentSequence (sequenceExecutor
     (snd (startSequence demoOrchestrator demoAmbient ''Demo.ping-symphony'' [] NORMAL))) =
     Some firstRequest"
    by (simp add: firstRequest_def ev)
  have b: "eventBus (snd (startSequence demoOrchestrator demoAmbient ''Demo.ping-symphony'' []
      NORMAL)) =
     [(SEQUENCE_QUEUED,
       [(''sequenceName'', VStr ''Demo.ping-symphony''),
        (''requestId'', VStr ''Demo.ping-symphony-1700000000000-k3x9q0zab''),
        (''priority'', VStr ''NORMAL''),
        (''queueLength'', VNum 0)])]"
    by (simp add: ev)
  show ?thesis
    using startSequence_admitted_order[OF h, of demoAmbient] h idle c b
    by (simp only: if_False simp_thms) blast
qed

subsection \<open>C6: the drainer never overlaps two executions\<close>

text \<open>
  C6: a call of \<^verbatim>\<open>processSequenceQueue\<close> with an empty queue or a running executor dequeues
  nothing, changes no state and resolves to \<^verbatim>\<open>processed: false\<close>; hence, from a state with an
  empty journal and an idle executor, whatever turns are taken (client calls, settlements
  by the executor, continuations of the drainer, in any order), every hand-over to the
  executor finds it idle: the journal is serial.
\<close>

theorem processSequenceQueue_never_overlaps:
  "(isEmpty (executionQueue s) \<or> isSequenceRunning (sequenceExecutor s) \<longrightarrow>
      processSequenceQueue amb s = (Resolved notProcessed, s)) \<and>
   (journal (orchestrator rt) = [] \<and> \<not> isSequenceRunning (sequenceExecutor (orchestrator rt)) \<longrightarrow>
      serial False (journal (orchestrator (runTurns ts rt))))"
proof (intro conjI impI)
  assume "isEmpty (executionQueue s) \<or> isSequenceRunning (sequenceExecutor s)"
  then show "processSequenceQueue amb s = (Resolved notProcessed, s)"
    by (rule drain_noop)
next
  assume "journal (orchestrator rt) = [] \<and> \<not> isSequenceRunning (sequenceExecutor (orchestrator rt))"
  then have "serialState (orchestrator rt)"
    by (simp add: serialState_def)
  then have "serialState (orchestrator (runTurns ts rt))"
    by (rule runTurns_serial)
  then show "serial False (journal (orchestrator (runTurns ts rt)))"
    by (simp add: serialState_def)
qed

text \<open>
  C6 at an orchestrator whose executor is running while a request waits, and at the run of
  six turns, in which two executions are handed over and settled one after the other.
\<close>

theorem processSequenceQueue_never_overlaps_witness:
  "(isEmpty (executionQueue busyOrchestrator) \<or> isSequenceRunning (sequenceExecutor busyOrchestrator)) \<and>
   processSequenceQueue demoAmbient busyOrchestrator = (Resolved notProcessed, busyOrchestrator) \<and>
   (journal (orchestrator \<lparr>orchestrator = demoOrchestrator, ready = []\<rparr>) = [] \<and>
    \<not> isSequenceRunning (sequenceExecutor (orchestrator \<lparr>orchestrator = demoOrchestrator, ready = []\<rparr>))) \<and>
   serial False (journal (orchestrator
     (runTurns demoTurns \<lparr>orchestrator = demoOrchestrator, ready = []\<rparr>))) \<and>
   count_list (journal (orchestrator
     (runTurns demoTurns \<lparr>orchestrator = demoOrchestrator, ready = []\<rparr>))) Settled = 2"
proof -
  have h1: "isEmpty (executionQueue busyOrchestrator) \<or>
      isSequenceRunning (sequenceExecutor busyOrchestrator)"
    by (simp add: busyOrchestrator_def isSequenceRunning_def)
  have h2: "journal (orchestrator \<lparr>orchestrator = demoOrchestrator, ready = []\<rparr>) = [] \<and>
    \<not> isSequenceRunning (sequenceExecutor (orchestrator \<lparr>orchestrator = demoOrchestrator, ready = []\<rparr>))"
    by (simp add: demoOrchestrator_def isSequenceRunning_def)
  show ?thesis
    using processSequenceQueue_never_overlaps[of busyOrchestrator demoAmbient
        "\<lparr>orchestrator = demoOrchestrator, ready = []\<rparr>" demoTurns]
      h1 h2 demo_run
    by blast
qed

subsection \<open>C7: a rejection by the executor\<close>

text \<open>
  C7 as stated: when the execution of a dequeued request rejects or throws, the drainer
  does not propagate the exception, converts it into \<^verbatim>\<open>SEQUENCE_FAILED\<close> for that request,
  returns a result with \<^verbatim>\<open>success: false\<close> and the error message, and continues draining.
  The \<^verbatim>\<open>catch\<close> branch emits nothing: after a rejection with an \<^verbatim>\<open>Error\<close>, with nothing left in
  the queue, the result carries the message, the bus is empty and no call was made on any
  collaborator. And not every rejection gives a result: after a rejection with
  \<^verbatim>\<open>undefined\<close> the read of \<^verbatim>\<open>message\<close> throws in the \<^verbatim>\<open>catch\<close> and the drainer's promise rejects.
\<close>

theorem rejection_emits_no_event:
  "fst (processSequenceQueueSettled demoAmbient demoOrchestrator pingRequest
          (Inl (VObj [(''message'', VStr ''executor crashed'')]))) =
     Inr \<lparr>processed = True, processedSequenceName = Some ''Demo.ping-symphony'',
          processedSuccess = Some False,
          processedError = Some (VStr ''executor crashed'')\<rparr> \<and>
   eventBus (snd (processSequenceQueueSettled demoAmbient demoOrchestrator pingRequest
          (Inl (VObj [(''message'', VStr ''executor crashed'')])))) = [] \<and>
   journal (snd (processSequenceQueueSettled demoAmbient demoOrchestrator pingRequest
          (Inl (VObj [(''message'', VStr ''executor crashed'')])))) = [] \<and>
   fst (processSequenceQueueSettled demoAmbient demoOrchestrator pingRequest (Inl VUndefined)) =
     Inl TypeError"
  by (simp add: ev)

text \<open>
  C7 as amended: when the execution of a dequeued request rejects or throws with an
  \<^verbatim>\<open>Error\<close>, or with any value other than \<^verbatim>\<open>undefined\<close> and \<^verbatim>\<open>null\<close>, the drainer does not propagate
  the exception and emits nothing on the bus; its promise is fulfilled with
  \<^verbatim>\<open>processed: true, success: false\<close> and, as \<^verbatim>\<open>error\<close>, the \<^verbatim>\<open>message\<close> property of the value (the
  message of an \<^verbatim>\<open>Error\<close>), and it continues draining: it leaves the state a new drain
  leaves, so that a registered request at the head of the queue of an idle executor is
  dequeued and handed over.
\<close>

theorem processSequenceQueueSettled_rejected:
  "(v \<noteq> VUndefined \<and> v \<noteq> VNull \<longrightarrow>
      (\<exists>m. messageProperty v = Inr m \<and>
           processSequenceQueueSettled amb s r (Inl v) =
             (Inr \<lparr>processed = True, processedSequenceName = Some (sequenceName r),
                   processedSuccess = Some False, processedError = Some m\<rparr>,
              snd (processSequenceQueue amb s))) \<and>
      eventBus (snd (processSequenceQueueSettled amb s r (Inl v))) = eventBus s \<and>
      (\<forall>x q sq. executionQueue s = x # q \<and> \<not> isSequenceRunning (sequenceExecutor s) \<and>
         registryGet (sequenceRegistry s) (sequenceName x) = Some sq \<longrightarrow>
         executionQueue (snd (processSequenceQueueSettled amb s r (Inl v))) = q \<and>
         currentSequence (sequenceExecutor
           (snd (processSequenceQueueSettled amb s r (Inl v)))) = Some x \<and>
         journal (snd (processSequenceQueueSettled amb s r (Inl v))) =
           journal s @
           [CallDequeue, CallUpdateQueueWaitTime (performanceNow amb - queuedAt x),
            CallExecuteSequence x])) \<and>
   processSequenceQueueSettled amb s r (Inl (VObj ((''message'', VStr msg) # props))) =
     (Inr \<lparr>processed = True, processedSequenceName = Some (sequenceName r),
           processedSuccess = Some False, processedError = Some (VStr msg)\<rparr>,
      snd (processSequenceQueue amb s))"
proof (intro conjI impI)
  assume nn: "v \<noteq> VUndefined \<and> v \<noteq> VNull"
  then obtain m where m: "messageProperty v = Inr m"
    by (cases v) simp_all
  then show "\<exists>m. messageProperty v = Inr m \<and>
           processSequenceQueueSettled amb s r (Inl v) =
             (Inr \<lparr>processed = True, processedSequenceName = Some (sequenceName r),
                   processedSuccess = Some False, processedError = Some m\<rparr>,
              snd (processSequenceQueue amb s))"
    by (simp add: processSequenceQueueSettled_def Let_def)
  show "eventBus (snd (processSequenceQueueSettled amb s r (Inl v))) = eventBus s"
    by (simp add: settled_state drain_frame)
  show "\<forall>x q sq. executionQueue s = x # q \<and> \<not> isSequenceRunning (sequenceExecutor s) \<and>
         registryGet (sequenceRegistry s) (sequenceName x) = Some sq \<longrightarrow>
         executionQueue (snd (processSequenceQueueSettled amb s r (Inl v))) = q \<and>
         currentSequence (sequenceExecutor
           (snd (processSequenceQueueSettled amb s r (Inl v)))) = Some x \<and>
         journal (snd (processSequenceQueueSettled amb s r (Inl v))) =
           journal s @
           [CallDequeue, CallUpdateQueueWaitTime (performanceNow amb - queuedAt x),
            CallExecuteSequence x]"
    by (auto simp: settled_state drain_hand dequeued_queue dequeued_frame
        executorExecuteSequence_def executeSequenceBegin_def)
next
  show "processSequenceQueueSettled amb s r (Inl (VObj ((''message'', VStr msg) # props))) =
     (Inr \<lparr>processed = True, processedSequenceName = Some (sequenceName r),
           processedSuccess = Some False, processedError = Some (VStr msg)\<rparr>,
      snd (processSequenceQueue amb s))"
    by (simp add: processSequenceQueueSettled_def Let_def)
qed

text \<open>
  The amended C7 with one registered request waiting when the rejection, an \<^verbatim>\<open>Error\<close> with
  the message \<^verbatim>\<open>handler failed\<close>, arrives.
\<close>

theorem processSequenceQueueSettled_rejected_witness:
  "(VObj [(''message'', VStr ''handler failed'')] \<noteq> VUndefined \<and>
    VObj [(''message'', VStr ''handler failed'')] \<noteq> VNull) \<and>
   (executionQueue pingQueued = pingRequest # [] \<and>
    \<not> isSequenceRunning (sequenceExecutor pingQueued) \<and>
    registryGet (sequenceRegistry pingQueued) (sequenceName pingRequest) = Some demoSequence) \<and>
   fst (processSequenceQueueSettled demoAmbient pingQueued firstRequest
      (Inl (VObj [(''message'', VStr ''handler failed'')]))) =
     Inr \<lparr>processed = True, processedSequenceName = Some (sequenceName firstRequest),
          processedSuccess = Some False, processedError = Some (VStr ''handler failed'')\<rparr> \<and>
   executionQueue (snd (processSequenceQueueSettled demoAmbient pingQueued firstRequest
      (Inl (VObj [(''message'', VStr ''handler failed'')])))) = [] \<and>
   currentSequence (sequenceExecutor (snd (processSequenceQueueSettled demoAmbient pingQueued
      firstRequest (Inl (VObj [(''message'', VStr ''handler failed'')]))))) = Some pingRequest \<and>
   eventBus (snd (processSequenceQueueSettled demoAmbient pingQueued firstRequest
      (Inl (VObj [(''message'', VStr ''handler failed'')])))) = []"
proof -
  have h: "executionQueue pingQueued = pingRequest # [] \<and>
    \<not> isSequenceRunning (sequenceExecutor pingQueued) \<and>
    registryGet (sequenceRegistry pingQueued) (sequenceName pingRequest) = Some demoSequence"
    by (simp add: pingQueued_def ev)
  have b: "eventBus pingQueued = []"
    by (simp add: pingQueued_def demoOrchestrator_def)
  show ?thesis
    using processSequenceQueueSettled_rejected[of "VObj [(''message'', VStr ''handler failed'')]"
        demoAmbient pingQueued firstRequest "''handler failed''" "[]"]
      h b
    by auto
qed

subsection \<open>C8: the data of an admitted request\<close>

text \<open>
  C8: the request an admitted call passes to \<^verbatim>\<open>enqueue\<close>, which after the call is in the queue
  or is the one the executor has just been handed, carries the request id returned to the
  caller and the caller's data with \<^verbatim>\<open>instanceId\<close>, \<^verbatim>\<open>symphonyName\<close>, \<^verbatim>\<open>resourceId\<close>,
  \<^verbatim>\<open>conflictResult\<close> and \<^verbatim>\<open>sequenceHash\<close> set inside the data object: these five keys read as the
  orchestration values whatever the caller supplied, every other key reads as in the
  caller's data.
\<close>

theorem admitted_request_data:
  assumes "admitted s n dat prio"
  shows "CallEnqueue (admittedRequest s amb n dat prio) \<in>
           set (journal (snd (startSequence s amb n dat prio))) \<and>
         (admittedRequest s amb n dat prio \<in>
            set (executionQueue (snd (startSequence s amb n dat prio))) \<or>
          currentSequence (sequenceExecutor (snd (startSequence s amb n dat prio))) =
            Some (admittedRequest s amb n dat prio)) \<and>
         requestId (admittedRequest s amb n dat prio) =
           startRequestId (fst (startSequence s amb n dat prio)) \<and>
         (\<forall>k. map_of (data (admittedRequest s amb n dat prio)) k =
            (if k = ''sequenceHash''
               then Some (VStr (dedupHash
                      (deduplicateSequenceRequest (sequenceValidator s) n dat prio)))
             else if k = ''conflictResult''
               then Some (VConflict
                      (checkResourceConflicts s (extractOrchestrationMetadata s n dat) prio))
             else if k = ''resourceId''
               then Some (VStr (resourceId (extractOrchestrationMetadata s n dat)))
             else if k = ''symphonyName''
               then Some (VStr (symphonyName (extractOrchestrationMetadata s n dat)))
             else if k = ''instanceId''
               then Some (VStr (instanceId (extractOrchestrationMetadata s n dat)))
             else map_of dat k))"
proof -
  let ?req = "admittedRequest s amb n dat prio"
  let ?s3 = "queueEnqueue (statsRecordSequenceQueued s) ?req"
  have reg: "registryGet (sequenceRegistry ?s3) (sequenceName ?req) \<noteq> None"
    using assms
    by (simp add: admitted_def admittedRequest_def createSequenceRequest_def queueEnqueue_def
        statsRecordSequenceQueued_def)
  have inq: "?req \<in> set (executionQueue ?s3)"
    by (simp add: queueEnqueue_def set_enqueue)
  have keep: "?req \<in> set (executionQueue (processQueueIfIdle amb ?s3)) \<or>
      currentSequence (sequenceExecutor (processQueueIfIdle amb ?s3)) = Some ?req"
    using drain_keeps[OF inq reg, of amb] inq by (simp add: processQueueIfIdle_def)
  obtain j where j: "journal (processQueueIfIdle amb ?s3) = journal ?s3 @ j"
    using idle_drain_journal[of amb ?s3] by blast
  have logged: "CallEnqueue ?req \<in> set (journal (processQueueIfIdle amb ?s3))"
    unfolding j by (simp add: queueEnqueue_def)
  have dat: "\<forall>k. map_of (data ?req) k =
            (if k = ''sequenceHash''
               then Some (VStr (dedupHash
                      (deduplicateSequenceRequest (sequenceValidator s) n dat prio)))
             else if k = ''conflictResult''
               then Some (VConflict
                      (checkResourceConflicts s (extractOrchestrationMetadata s n dat) prio))
             else if k = ''resourceId''
               then Some (VStr (resourceId (extractOrchestrationMetadata s n dat)))
             else if k = ''symphonyName''
               then Some (VStr (symphonyName (extractOrchestrationMetadata s n dat)))
             else if k = ''instanceId''
               then Some (VStr (instanceId (extractOrchestrationMetadata s n dat)))
             else map_of dat k)"
    by (simp add: admittedRequest_def createSequenceRequest_def update_conv')
  have rid: "requestId ?req = generateRequestId amb n"
    by (simp add: admittedRequest_def createSequenceRequest_def)
  show ?thesis
    using keep logged dat rid
    by (simp add: start_admit[OF assms] emitSequenceQueuedEvent_def busEmit_def)
qed

text \<open>
  C8 at a call whose data has an \<^verbatim>\<open>elementId\<close> and its own \<^verbatim>\<open>instanceId\<close>: the former is kept,
  the latter is overwritten in place.
\<close>

theorem admitted_request_data_witness:
  "admitted demoOrchestrator ''Demo.ping-symphony''
     [(''elementId'', VStr ''elem-7''), (''instanceId'', VStr ''mine'')] NORMAL \<and>
   data (admittedRequest demoOrchestrator demoAmbient ''Demo.ping-symphony''
     [(''elementId'', VStr ''elem-7''), (''instanceId'', VStr ''mine'')] NORMAL) =
     [(''elementId'', VStr ''elem-7''),
      (''instanceId'', VStr ''Demo.ping-symphony:1''),
      (''symphonyName'', VStr ''Demo''),
      (''resourceId'', VStr ''elem-7''),
      (''conflictResult'',
       VConflict \<lparr>hasConflict = False, conflictType = NONE, resolution = ALLOW,
                  message = ''No conflict detected''\<rparr>),
      (''sequenceHash'', VStr ''Demo.ping-symphony|NORMAL'')] \<and>
   currentSequence (sequenceExecutor (snd (startSequence demoOrchestrator demoAmbient
     ''Demo.ping-symphony'' [(''elementId'', VStr ''elem-7''), (''instanceId'', VStr ''mine'')]
     NORMAL))) =
     Some (admittedRequest demoOrchestrator demoAmbient ''Demo.ping-symphony''
       [(''elementId'', VStr ''elem-7''), (''instanceId'', VStr ''mine'')] NORMAL) \<and>
   map_of (data (admittedRequest demoOrchestrator demoAmbient ''Demo.ping-symphony''
     [(''elementId'', VStr ''elem-7''), (''instanceId'', VStr ''mine'')] NORMAL)) ''elementId'' =
     Some (VStr ''elem-7'')"
proof -
  let ?dat = "[(''elementId'', VStr ''elem-7''), (''instanceId'', VStr ''mine'')]"
  have h: "admitted demoOrchestrator ''Demo.ping-symphony'' ?dat NORMAL"
    by (simp add: admitted_def ev)
  have d: "data (admittedRequest demoOrchestrator demoAmbient ''Demo.ping-symphony'' ?dat NORMAL) =
     [(''elementId'', VStr ''elem-7''),
      (''instanceId'', VStr ''Demo.ping-symphony:1''),
      (''symphonyName'', VStr ''Demo''),
      (''resourceId'', VStr ''elem-7''),
      (''conflictResult'',
       VConflict \<lparr>hasConflict = False, conflictType = NONE, resolution = ALLOW,
                  message = ''No conflict detected''\<rparr>),
      (''sequenceHash'', VStr ''Demo.ping-symphony|NORMAL'')]"
    by (simp add: admittedRequest_def ev)
  have c: "currentSequence (sequenceExecutor (snd (startSequence demoOrchestrator demoAmbient
     ''Demo.ping-symphony'' ?dat NORMAL))) =
     Some (admittedRequest demoOrchestrator demoAmbient ''Demo.ping-symphony'' ?dat NORMAL)"
    by (simp add: admittedRequest_def ev)
  have k: "map_of (data (admittedRequest demoOrchestrator demoAmbient ''Demo.ping-symphony''
     ?dat NORMAL)) ''elementId'' = map_of ?dat ''elementId''"
    using admitted_request_data[OF h, of demoAmbient] by simp
  show ?thesis using h d c k by simp
qed

subsection \<open>C9: a failed admission leaves the queue alone\<close>

text \<open>
  C9: whenever \<^verbatim>\<open>startSequence\<close> returns \<^verbatim>\<open>success: false\<close>, the queue and the queued counter
  are as they were, and the calls the failed admission made on the collaborators include
  neither \<^verbatim>\<open>recordSequenceQueued\<close> nor \<^verbatim>\<open>enqueue\<close>. (The bus of this model never throws.)
\<close>

theorem startSequence_failure_keeps_queue:
  assumes "\<not> success (fst (startSequence s amb n dat prio))"
  shows "executionQueue (snd (startSequence s amb n dat prio)) = executionQueue s \<and>
         queued (statisticsManager (snd (startSequence s amb n dat prio))) =
           queued (statisticsManager s) \<and>
         CallRecordSequenceQueued \<notin> set (drop (length (journal s))
            (journal (snd (startSequence s amb n dat prio)))) \<and>
         (\<forall>r. CallEnqueue r \<notin> set (drop (length (journal s))
            (journal (snd (startSequence s amb n dat prio)))))"
proof (cases rule: start_cases[where s = s and n = n and dat = dat and prio = prio])
  case missing
  then show ?thesis
    by (simp add: start_missing statsRecordError_def recordError_def)
next
  case (duplicate sq)
  then show ?thesis
    by (simp add: start_duplicate handleDuplicateSequence_def busEmit_def Let_def)
next
  case (reject sq)
  then show ?thesis
    by (simp add: start_reject statsRecordError_def recordError_def)
next
  case admit
  then show ?thesis using assms by (simp add: start_admit)
qed

text \<open>
  C9 at a rejected call: a strict delegator rejects the request while another request is
  waiting in the queue; the queue still holds just that one.
\<close>

theorem startSequence_failure_keeps_queue_witness:
  "\<not> success (fst (startSequence (strictOrchestrator\<lparr>executionQueue := [pingRequest]\<rparr>)
        demoAmbient ''Demo.ping-symphony'' [] HIGH)) \<and>
   executionQueue (snd (startSequence (strictOrchestrator\<lparr>executionQueue := [pingRequest]\<rparr>)
        demoAmbient ''Demo.ping-symphony'' [] HIGH)) = [pingRequest] \<and>
   queued (statisticsManager (snd (startSequence
        (strictOrchestrator\<lparr>executionQueue := [pingRequest]\<rparr>)
        demoAmbient ''Demo.ping-symphony'' [] HIGH))) = 0"
proof -
  have h: "\<not> success (fst (startSequence (strictOrchestrator\<lparr>executionQueue := [pingRequest]\<rparr>)
        demoAmbient ''Demo.ping-symphony'' [] HIGH))"
    by (simp add: ev)
  show ?thesis
    using startSequence_failure_keeps_queue[OF h] h
    by (simp add: strictOrchestrator_def demoOrchestrator_def emptyStatistics_def)
qed

subsection \<open>C10: the execution type of a context\<close>

text \<open>
  C10: for a request whose sequence is registered, \<^verbatim>\<open>createExecutionContext\<close> returns a context
  whose \<^verbatim>\<open>executionType\<close> is \<^verbatim>\<open>IMMEDIATE\<close> iff the priority is \<^verbatim>\<open>HIGH\<close> and \<^verbatim>\<open>CONSECUTIVE\<close>
  otherwise (with the sequence and the priority in it); for an unregistered one it throws.
\<close>

theorem createExecutionContext_executionType:
  "(\<forall>sq. registryGet (sequenceRegistry s) (sequenceName r) = Some sq \<longrightarrow>
      (\<exists>ctx. createExecutionContext s r = Inr ctx \<and>
         map_of ctx ''executionType'' =
           Some (VStr (if priority r = HIGH then ''IMMEDIATE'' else ''CONSECUTIVE'')) \<and>
         (map_of ctx ''executionType'' = Some (VStr ''IMMEDIATE'') \<longleftrightarrow> priority r = HIGH) \<and>
         map_of ctx ''sequence'' = Some (VSequence sq) \<and>
         map_of ctx ''priority'' = Some (VStr (priorityName (priority r))))) \<and>
   (registryGet (sequenceRegistry s) (sequenceName r) = None \<longrightarrow>
      createExecutionContext s r = Inl (Error (''Sequence '' @ sequenceName r @ '' not found'')))"
  by (simp add: createExecutionContext_def Let_def update_conv')

text \<open>
  C10 at three requests: a \<^verbatim>\<open>NORMAL\<close> and a \<^verbatim>\<open>HIGH\<close> request for the registered sequence, and
  a request for an unregistered one.
\<close>

theorem createExecutionContext_executionType_witness:
  "registryGet (sequenceRegistry demoOrchestrator) (sequenceName pingRequest) = Some demoSequence \<and>
   (\<exists>ctx. createExecutionContext demoOrchestrator pingRequest = Inr ctx \<and>
      map_of ctx ''executionType'' = Some (VStr ''CONSECUTIVE'')) \<and>
   (\<exists>ctx. createExecutionContext demoOrchestrator (pingRequest\<lparr>priority := HIGH\<rparr>) = Inr ctx \<and>
      map_of ctx ''executionType'' = Some (VStr ''IMMEDIATE'')) \<and>
   registryGet (sequenceRegistry demoOrchestrator) (sequenceName lostRequest) = None \<and>
   createExecutionContext demoOrchestrator lostRequest =
     Inl (Error ''Sequence Gone.lost-symphony not found'')"
proof -
  have h1: "registryGet (sequenceRegistry demoOrchestrator) (sequenceName pingRequest) =
      Some demoSequence"
    by (simp add: demoOrchestrator_def registryGet_def pingRequest_def)
  have h2: "registryGet (sequenceRegistry demoOrchestrator) (sequenceName lostRequest) = None"
    by (simp add: demoOrchestrator_def registryGet_def lostRequest_def)
  have h3: "registryGet (sequenceRegistry demoOrchestrator)
      (sequenceName (pingRequest\<lparr>priority := HIGH\<rparr>)) = Some demoSequence"
    using h1 by simp
  have p: "priority pingRequest = NORMAL" "sequenceName lostRequest = ''Gone.lost-symphony''"
    by (simp_all add: pingRequest_def lostRequest_def)
  show ?thesis
    using createExecutionContext_executionType[of demoOrchestrator pingRequest]
      createExecutionContext_executionType[of demoOrchestrator "pingRequest\<lparr>priority := HIGH\<rparr>"]
      createExecutionContext_executionType[of demoOrchestrator lostRequest]
      h1 h2 h3 p
    by auto
qed

end
